theory Spec2Isabelle
  imports Complex_Main
begin

section \<open>JSON-like values\<close>

text \<open>
  Tool arguments arrive as parsed JSON. A JavaScript number is a double; the finite ones
  are rationals, and \<open>NaN\<close> and the two infinities are kept apart because the numeric
  coercion of \<open>grok_search\<close> can produce them. \<open>JUndefined\<close> is JavaScript's
  \<open>undefined\<close>: the tool-call request may carry no \<open>arguments\<close> at all.
  An object is the list of its own enumerable properties in the order of \<open>Object.keys\<close>;
  a JavaScript object has no duplicate keys.
\<close>

datatype jsnum = Fin rat | NaN | PosInf | NegInf

datatype json =
    JUndefined
  | JNull
  | JBool bool
  | JNum jsnum
  | JString string
  | JArray "json list"
  | JObject "(string \<times> json) list"

section \<open>Sanitization (index.ts, \<open>sanitize\<close>)\<close>

text \<open>The character class of the regular expression \<open>/[<>"'`]/g\<close>.\<close>

definition strip_chars :: "char list" where
  "strip_chars = [CHR ''<'', CHR ''>'', CHR 0x22, CHR 0x27, CHR 0x60]"

text \<open>\<open>obj.replace(/[<>"'`]/g, '')\<close>\<close>

definition strip :: "string \<Rightarrow> string" where
  "strip s = filter (\<lambda>c. c \<notin> set strip_chars) s"

text \<open>\<open>String.prototype.startsWith\<close> and \<open>String.prototype.includes\<close>.\<close>

fun startsWith :: "string \<Rightarrow> string \<Rightarrow> bool" where
  "startsWith s [] = True"
| "startsWith [] (p # ps) = False"
| "startsWith (c # cs) (p # ps) = (c = p \<and> startsWith cs ps)"

fun includes_str :: "string \<Rightarrow> string \<Rightarrow> bool" where
  "includes_str [] p = startsWith [] p"
| "includes_str (c # cs) p = (startsWith (c # cs) p \<or> includes_str cs p)"

text \<open>The test of the loop body: \<open>k.startsWith('$') || k.includes('__proto__')\<close>.\<close>

definition dropped_key :: "string \<Rightarrow> bool" where
  "dropped_key k = (startsWith k ''$'' \<or> includes_str k ''__proto__'')"

text \<open>
  \<open>sanitize\<close> itself. \<open>sanitize_items\<close> is \<open>obj.map(sanitize)\<close> and
  \<open>sanitize_entries\<close> is the \<open>for (const k of Object.keys(obj))\<close> loop, which skips
  a dropped key with \<open>continue\<close> and otherwise stores the sanitized value under the
  same key. Every other value (number, boolean, \<open>null\<close>, \<open>undefined\<close>) falls through
  to the final \<open>return obj\<close>.
\<close>

fun sanitize :: "json \<Rightarrow> json"
  and sanitize_items :: "json list \<Rightarrow> json list"
  and sanitize_entries :: "(string \<times> json) list \<Rightarrow> (string \<times> json) list" where
  "sanitize (JString s) = JString (strip s)"
| "sanitize (JArray xs) = JArray (sanitize_items xs)"
| "sanitize (JObject kvs) = JObject (sanitize_entries kvs)"
| "sanitize JUndefined = JUndefined"
| "sanitize JNull = JNull"
| "sanitize (JBool b) = JBool b"
| "sanitize (JNum n) = JNum n"
| "sanitize_items [] = []"
| "sanitize_items (x # xs) = sanitize x # sanitize_items xs"
| "sanitize_entries [] = []"
| "sanitize_entries ((k, v) # kvs) =
     (if dropped_key k then sanitize_entries kvs
      else (k, sanitize v) # sanitize_entries kvs)"

text \<open>
  What a sanitized tree looks like: no string value, at any depth, holds one of the five
  characters, and no object, at any depth, has a dropped key.
\<close>

fun strings_clean :: "json \<Rightarrow> bool"
  and strings_clean_items :: "json list \<Rightarrow> bool"
  and strings_clean_entries :: "(string \<times> json) list \<Rightarrow> bool" where
  "strings_clean (JString s) = list_all (\<lambda>c. c \<notin> set strip_chars) s"
| "strings_clean (JArray xs) = strings_clean_items xs"
| "strings_clean (JObject kvs) = strings_clean_entries kvs"
| "strings_clean JUndefined = True"
| "strings_clean JNull = True"
| "strings_clean (JBool b) = True"
| "strings_clean (JNum n) = True"
| "strings_clean_items [] = True"
| "strings_clean_items (x # xs) = (strings_clean x \<and> strings_clean_items xs)"
| "strings_clean_entries [] = True"
| "strings_clean_entries ((k, v) # kvs) = (strings_clean v \<and> strings_clean_entries kvs)"

fun keys_clean :: "json \<Rightarrow> bool"
  and keys_clean_items :: "json list \<Rightarrow> bool"
  and keys_clean_entries :: "(string \<times> json) list \<Rightarrow> bool" where
  "keys_clean (JArray xs) = keys_clean_items xs"
| "keys_clean (JObject kvs) = keys_clean_entries kvs"
| "keys_clean (JString s) = True"
| "keys_clean JUndefined = True"
| "keys_clean JNull = True"
| "keys_clean (JBool b) = True"
| "keys_clean (JNum n) = True"
| "keys_clean_items [] = True"
| "keys_clean_items (x # xs) = (keys_clean x \<and> keys_clean_items xs)"
| "keys_clean_entries [] = True"
| "keys_clean_entries ((k, v) # kvs) =
     (\<not> dropped_key k \<and> keys_clean v \<and> keys_clean_entries kvs)"

section \<open>Errors (errors.ts) and thrown values\<close>

text \<open>
  The three recognised subclasses of \<open>AppError\<close> carry their message; an
  \<open>ExternalServiceError\<close> also carries the status code it was built with (the other two
  fix theirs at 400 and 401). \<open>OtherError\<close> is any other thrown value, with its
  \<open>message\<close> property when it has one: a plain \<open>Error\<close>, a \<open>TypeError\<close> of the
  runtime, or a value that is no error object at all. The \<open>context\<close> field of
  \<open>AppError\<close> (validation issues, the cause) is never read by the code modelled here
  and is left out.
\<close>

datatype thrown =
    ValidationError string
  | AuthError string
  | ExternalServiceError string nat
  | OtherError "string option"

fun statusCode :: "thrown \<Rightarrow> nat option" where
  "statusCode (ValidationError m) = Some 400"
| "statusCode (AuthError m) = Some 401"
| "statusCode (ExternalServiceError m c) = Some c"
| "statusCode (OtherError m) = None"

text \<open>\<open>err?.message\<close>\<close>

fun message_of :: "thrown \<Rightarrow> string option" where
  "message_of (ValidationError m) = Some m"
| "message_of (AuthError m) = Some m"
| "message_of (ExternalServiceError m c) = Some m"
| "message_of (OtherError m) = m"

text \<open>Truthiness of an optional string: \<open>undefined\<close> and \<open>''\<close> are falsy.\<close>

fun truthy_str :: "string option \<Rightarrow> bool" where
  "truthy_str None = False"
| "truthy_str (Some s) = (s \<noteq> [])"

text \<open>\<open>error instanceof ValidationError || error instanceof AuthError || error instanceof ExternalServiceError\<close>\<close>

fun recognised :: "thrown \<Rightarrow> bool" where
  "recognised (ValidationError m) = True"
| "recognised (AuthError m) = True"
| "recognised (ExternalServiceError m c) = True"
| "recognised (OtherError m) = False"

section \<open>The response envelope and \<open>handleError\<close> (index.ts)\<close>

text \<open>One item of \<open>content\<close>: its \<open>type\<close> and its \<open>text\<close>.\<close>

record content_item =
  item_type :: string
  item_text :: string

record response =
  content :: "content_item list"
  metrics :: "string option"

definition text_response :: "string \<Rightarrow> response" where
  "text_response t = \<lparr>content = [\<lparr>item_type = ''text'', item_text = t\<rparr>], metrics = None\<rparr>"

text \<open>
  \<open>handleError\<close>: the message starts as \<open>'Internal server error'\<close>; a recognised
  error replaces it by its own message, and so does, in the \<open>else if\<close> branch, any other
  thrown value whose \<open>message\<close> is truthy.
\<close>

definition handleError :: "thrown \<Rightarrow> response" where
  "handleError error =
     (let message =
        (if recognised error then the (message_of error)
         else if truthy_str (message_of error) then the (message_of error)
         else ''Internal server error'')
      in text_response (''Error: '' @ message))"

section \<open>Authentication (index.ts, \<open>checkAuth\<close>)\<close>

text \<open>
  A tool-call request: the tool name and the arguments of \<open>request.params\<close>, and the
  two places \<open>checkAuth\<close> looks for a token, which is read as a string. The process
  environment holds the shared secret, when one is configured.
\<close>

record request =
  name :: string
  arguments :: json
  params_auth :: "string option"
  auth :: "string option"

record env =
  SHARED_SECRET :: "string option"




section \<open>The upstream client: data (types.ts, grok-client.ts)\<close>

text \<open>
  Upstream payloads are read at their declared TypeScript types. Of a chat response
  the code reads the choices and, of each, \<open>message.content\<close> (a string or \<open>null\<close>)
  and, in the revision with native search, \<open>message.citations\<close>; the fields it never
  reads (\<open>object\<close>, \<open>created\<close>, \<open>usage\<close>, the index and the finish reason of a
  choice) are left out.
\<close>

datatype role = System | User | Assistant

record GrokMessage =
  role :: role
  msg_content :: string

record SearchParameters =
  mode :: string
  return_citations :: bool
  sources :: "string list"
  from_date :: "string option"

text \<open>
  A \<open>Partial<GrokChatRequest>\<close> is an object literal: the list of its properties in the
  order they are written, a property holding \<open>None\<close> when its value is \<open>undefined\<close>.
  A property that is absent and a property that is \<open>undefined\<close> differ under the
  spread \<open>...request\<close>. The properties no caller sets (\<open>stream\<close>, \<open>functions\<close>,
  \<open>function_call\<close>) are left out.
\<close>

datatype chat_prop =
    Messages "GrokMessage list option"
  | Model "string option"
  | Temperature "jsnum option"
  | Max_tokens "jsnum option"
  | Search_parameters "SearchParameters option"

type_synonym GrokChatRequest = "chat_prop list"

fun req_messages :: "GrokChatRequest \<Rightarrow> GrokMessage list option option" where
  "req_messages [] = None"
| "req_messages (Messages v # ps) = Some v"
| "req_messages (p # ps) = req_messages ps"

fun req_model :: "GrokChatRequest \<Rightarrow> string option option" where
  "req_model [] = None"
| "req_model (Model v # ps) = Some v"
| "req_model (p # ps) = req_model ps"

fun req_temperature :: "GrokChatRequest \<Rightarrow> jsnum option option" where
  "req_temperature [] = None"
| "req_temperature (Temperature v # ps) = Some v"
| "req_temperature (p # ps) = req_temperature ps"

fun req_max_tokens :: "GrokChatRequest \<Rightarrow> jsnum option option" where
  "req_max_tokens [] = None"
| "req_max_tokens (Max_tokens v # ps) = Some v"
| "req_max_tokens (p # ps) = req_max_tokens ps"

fun req_search_parameters :: "GrokChatRequest \<Rightarrow> SearchParameters option option" where
  "req_search_parameters [] = None"
| "req_search_parameters (Search_parameters v # ps) = Some v"
| "req_search_parameters (p # ps) = req_search_parameters ps"

text \<open>The body posted to \<open>/chat/completions\<close>; \<open>None\<close> is \<open>undefined\<close>.\<close>

record fullRequest =
  fr_model :: "string option"
  fr_messages :: "GrokMessage list option"
  fr_temperature :: "jsnum option"
  fr_max_tokens :: "jsnum option"
  fr_stream :: bool
  fr_search_parameters :: "SearchParameters option"

record choice =
  c_content :: "string option"
  c_citations :: "string list option"

record GrokChatResponse =
  resp_id :: string
  resp_model :: string
  choices :: "choice list"

datatype time_filter = Day | Week | Month | Year | All

record GrokSearchRequest =
  query :: string
  max_results :: "int option"
  include_images :: "bool option"
  include_news :: "bool option"
  time_filter :: "time_filter option"

record SearchResult =
  title :: string
  url :: string
  snippet :: string
  published_date :: "string option"
  source :: "string option"

record GrokSearchResponse =
  results :: "SearchResult list"
  total_results :: rat
  search_time :: rat

record GrokConfig =
  apiKey :: string
  baseUrl :: string
  cfg_model :: string
  cfg_temperature :: jsnum
  cfg_maxTokens :: jsnum

section \<open>Process state and the outside world\<close>

text \<open>
  A failed HTTP call is an axios error (with the response status and the
  \<open>response.data.error.message\<close> when there are any, and its own message) or any
  other thrown value.
\<close>

datatype upstream_failure =
    AxiosError "nat option" "string option" string
  | Failure thrown

datatype net_call =
    PostChat fullRequest
  | PostSearch GrokSearchRequest
  | GetModels

text \<open>
  A cache key is \<open>JSON.stringify({ type, ...request })\<close>. The model keeps the document
  instead of its text: the type tag is the constructor, a chat key is the property list
  without its \<open>undefined\<close> properties and with every non-finite number written as
  \<open>null\<close> (\<open>NaN\<close> here), a search key is the request itself.
\<close>

datatype cache_entry =
    ChatEntry "chat_prop list" GrokChatResponse
  | SearchEntry GrokSearchRequest GrokSearchResponse

type_synonym labels = "(string \<times> string) list"

text \<open>
  The state of the process: the clock in milliseconds, the client's cache (most recently
  used first, each entry with the time it was set), the network calls started so far (a
  call is logged when it is handed to the limiter or to axios, whatever comes of it), and
  the three Prometheus metrics, each as the list of its events with their labels. Tool
  calls run one after the other: a call has returned its response when the next one
  starts, and the limiter only adds to the time a network call takes.
\<close>

record state =
  clock :: nat
  cache :: "(cache_entry \<times> nat) list"
  net_log :: "net_call list"
  requestCounter :: "labels list"
  errorCounter :: "labels list"
  latencyHistogram :: "(labels \<times> rat) list"

text \<open>
  What the code calls and does not define: the three upstream endpoints (the outcome of
  the \<open>n\<close>-th network call of the process, and the time it takes, limiter included),
  and the library functions \<open>JSON.parse\<close> (read at the declared type of the simulated
  search document: \<open>None\<close> when parsing or reading \<open>.results\<close> throws, \<open>Some None\<close>
  when \<open>results\<close> is missing or falsy), \<open>encodeURIComponent\<close> (which throws on a
  malformed string), \<open>new URL\<close> (host name and path name, or a throw), the date
  arithmetic of \<open>getDateOffset\<close>, number formatting, \<open>Number\<close> on a value that is
  neither a number, a boolean nor \<open>null\<close>, and the text of the metrics registry.
\<close>

record world =
  chat_endpoint :: "nat \<Rightarrow> fullRequest \<Rightarrow> upstream_failure + GrokChatResponse"
  search_endpoint :: "nat \<Rightarrow> GrokSearchRequest \<Rightarrow> upstream_failure + GrokSearchResponse"
  models_endpoint :: "nat \<Rightarrow> upstream_failure + string list option"
  call_duration :: "nat \<Rightarrow> nat"
  JSON_parse_results :: "string \<Rightarrow> SearchResult list option option"
  encodeURIComponent :: "string \<Rightarrow> string option"
  new_URL :: "string \<Rightarrow> (string \<times> string) option"
  date_days_ago :: "nat \<Rightarrow> nat \<Rightarrow> string"
  Number_toString :: "rat \<Rightarrow> string"
  Number_of :: "json \<Rightarrow> jsnum"
  register_metrics :: "state \<Rightarrow> string"

section \<open>The response cache\<close>

text \<open>
  Modelled from the spec: the cache library (\<open>lru-cache\<close>, built with
  \<open>max: 100\<close> and \<open>ttl: 1000 * 60 * 5\<close>) is not among the sources. An entry older than
  the TTL is never returned (and is dropped when it is looked up); a lookup that hits
  makes the entry the most recently used; the capacity is bounded and the least recently
  used entry is evicted first.
\<close>

definition cache_max :: nat where
  "cache_max = 100"

definition cache_ttl :: nat where
  "cache_ttl = 1000 * 60 * 5"

definition lru_get ::
  "nat \<Rightarrow> ('e \<times> nat \<Rightarrow> bool) \<Rightarrow> ('e \<times> nat) list \<Rightarrow> ('e \<times> nat) option \<times> ('e \<times> nat) list" where
  "lru_get now hit es =
     (case find hit es of
        None \<Rightarrow> (None, es)
      | Some e \<Rightarrow>
          if now - snd e > cache_ttl then (None, filter (\<lambda>x. \<not> hit x) es)
          else (Some e, e # filter (\<lambda>x. \<not> hit x) es))"

definition lru_set ::
  "nat \<Rightarrow> ('e \<times> nat \<Rightarrow> bool) \<Rightarrow> 'e \<Rightarrow> ('e \<times> nat) list \<Rightarrow> ('e \<times> nat) list" where
  "lru_set now hit e es = take cache_max ((e, now) # filter (\<lambda>x. \<not> hit x) es)"

fun chat_hit :: "chat_prop list \<Rightarrow> cache_entry \<times> nat \<Rightarrow> bool" where
  "chat_hit k (ChatEntry k' v, t) = (k' = k)"
| "chat_hit k (SearchEntry k' v, t) = False"

fun search_hit :: "GrokSearchRequest \<Rightarrow> cache_entry \<times> nat \<Rightarrow> bool" where
  "search_hit k (SearchEntry k' v, t) = (k' = k)"
| "search_hit k (ChatEntry k' v, t) = False"

section \<open>\<open>chatCompletion\<close> (grok-client.ts, both revisions)\<close>

text \<open>What \<open>JSON.stringify\<close> does to a number: a non-finite one becomes \<open>null\<close>.\<close>

fun key_num :: "jsnum \<Rightarrow> jsnum" where
  "key_num (Fin r) = Fin r"
| "key_num n = NaN"

fun key_prop :: "chat_prop \<Rightarrow> chat_prop option" where
  "key_prop (Messages v) = map_option (\<lambda>x. Messages (Some x)) v"
| "key_prop (Model v) = map_option (\<lambda>x. Model (Some x)) v"
| "key_prop (Temperature v) = map_option (\<lambda>x. Temperature (Some (key_num x))) v"
| "key_prop (Max_tokens v) = map_option (\<lambda>x. Max_tokens (Some (key_num x))) v"
| "key_prop (Search_parameters v) = map_option (\<lambda>x. Search_parameters (Some x)) v"

text \<open>\<open>JSON.stringify({ type: 'chat', ...request })\<close>\<close>

definition cacheKey_chat :: "GrokChatRequest \<Rightarrow> chat_prop list" where
  "cacheKey_chat request = List.map_filter key_prop request"

text \<open>
  The object literal of \<open>fullRequest\<close>: four defaults and \<open>stream: false\<close>, then the
  spread \<open>...request\<close>, which overwrites a default with every property the request
  has, an \<open>undefined\<close> one included.
\<close>

fun spread_over :: "'a option option \<Rightarrow> 'a \<Rightarrow> 'a option" where
  "spread_over None d = Some d"
| "spread_over (Some v) d = v"

definition build_fullRequest :: "GrokConfig \<Rightarrow> GrokChatRequest \<Rightarrow> fullRequest" where
  "build_fullRequest config request =
     \<lparr>fr_model = spread_over (req_model request) (cfg_model config),
      fr_messages = spread_over (req_messages request) [],
      fr_temperature = spread_over (req_temperature request) (cfg_temperature config),
      fr_max_tokens = spread_over (req_max_tokens request) (cfg_maxTokens config),
      fr_stream = False,
      fr_search_parameters = (case req_search_parameters request of None \<Rightarrow> None | Some v \<Rightarrow> v)\<rparr>"

text \<open>
  Starting a network call: it is logged, and the clock moves on by the time the call
  takes. The log holds every call that was started: when the outcome is a thrown value
  that is no axios error (the limiter refusing the job, say), the request may never have
  left the process.
\<close>

definition issue :: "world \<Rightarrow> net_call \<Rightarrow> state \<Rightarrow> state" where
  "issue w call s =
     s\<lparr>net_log := net_log s @ [call], clock := clock s + call_duration w (length (net_log s))\<rparr>"

text \<open>The interpolation \<open>${error.response?.status}\<close>.\<close>

definition show_status :: "world \<Rightarrow> nat option \<Rightarrow> string" where
  "show_status w st = (case st of None \<Rightarrow> ''undefined'' | Some n \<Rightarrow> Number_toString w (of_nat n))"

text \<open>
  \<open>chatCompletion\<close>: a hit returns the cached payload; a miss posts the full request
  through the limiter, and stores and returns the data, or rethrows: an axios error as a
  plain \<open>Error\<close> with the status and the upstream's message, anything else as it is.
\<close>

definition chatCompletion ::
  "world \<Rightarrow> GrokConfig \<Rightarrow> GrokChatRequest \<Rightarrow> state \<Rightarrow> (thrown + GrokChatResponse) \<times> state" where
  "chatCompletion w config request s =
     (let cacheKey = cacheKey_chat request
      in case lru_get (clock s) (chat_hit cacheKey) (cache s) of
           (Some (ChatEntry k cached, t), es) \<Rightarrow> (Inr cached, s\<lparr>cache := es\<rparr>)
         | (_, es) \<Rightarrow>
             (let full = build_fullRequest config request;
                  s1 = issue w (PostChat full) (s\<lparr>cache := es\<rparr>)
              in (case chat_endpoint w (length (net_log s)) full of
                    Inr data \<Rightarrow>
                      (Inr data,
                       s1\<lparr>cache := lru_set (clock s1) (chat_hit cacheKey)
                                     (ChatEntry cacheKey data) (cache s1)\<rparr>)
                  | Inl (AxiosError status api_message message) \<Rightarrow>
                      (Inl (OtherError (Some (''Grok API Error: '' @ show_status w status @ '' - ''
                          @ (if truthy_str api_message then the api_message else message)))), s1)
                  | Inl (Failure error) \<Rightarrow> (Inl error, s1))))"

section \<open>String helpers\<close>

text \<open>
  Strings are lists of characters, a character being a byte of the UTF-8 text; lengths
  and positions (\<open>substring(0, n)\<close> as \<open>take n\<close>) count those, where JavaScript
  counts UTF-16 units. White space is the ASCII part of what \<open>\s\<close> and \<open>trim\<close>
  treat as white space. On ASCII text the model and JavaScript agree; on other text the
  cuts and the white space may differ.
\<close>

abbreviation dq :: string where "dq \<equiv> [CHR 0x22]"

abbreviation nl :: string where "nl \<equiv> [CHR 0x0A]"

definition is_space :: "char \<Rightarrow> bool" where
  "is_space c = (c \<in> set [CHR 0x20, CHR 0x09, CHR 0x0A, CHR 0x0B, CHR 0x0C, CHR 0x0D])"

definition trim :: "string \<Rightarrow> string" where
  "trim s = rev (dropWhile is_space (rev (dropWhile is_space s)))"

text \<open>\<open>Array.prototype.join\<close>\<close>

fun join :: "string \<Rightarrow> string list \<Rightarrow> string" where
  "join sep [] = []"
| "join sep [x] = x"
| "join sep (x # y # ys) = x @ sep @ join sep (y # ys)"

text \<open>\<open>content.replace(/```json\n?|```\n?/g, '')\<close>\<close>

definition fence :: string where
  "fence = [CHR 0x60, CHR 0x60, CHR 0x60]"

fun drop_newline :: "string \<Rightarrow> string" where
  "drop_newline [] = []"
| "drop_newline (c # cs) = (if c = CHR 0x0A then cs else c # cs)"

function strip_fences :: "string \<Rightarrow> string" where
  "strip_fences [] = []"
| "strip_fences (c # cs) =
     (if startsWith (c # cs) (fence @ ''json'')
      then strip_fences (drop_newline (drop 7 (c # cs)))
      else if startsWith (c # cs) fence
      then strip_fences (drop_newline (drop 3 (c # cs)))
      else c # strip_fences cs)"
  by pat_completeness auto
termination
proof (relation "measure length")
  have shorter: "length (drop_newline xs) \<le> length xs" for xs
    by (cases xs) auto
  show "wf (measure length)" by simp
  show "(drop_newline (drop 7 (c # cs)), c # cs) \<in> measure length" for c cs
    using shorter [of "drop 7 (c # cs)"] by simp
  show "(drop_newline (drop 3 (c # cs)), c # cs) \<in> measure length" for c cs
    using shorter [of "drop 3 (c # cs)"] by simp
  show "(cs, c # cs) \<in> measure length" for c :: char and cs
    by simp
qed

text \<open>
  \<open>content.match(/\{[\s\S]*\}/)\<close>: from the first opening brace to the last closing
  brace after it.
\<close>

definition match_braces :: "string \<Rightarrow> string option" where
  "match_braces s =
     (let t = dropWhile (\<lambda>c. c \<noteq> CHR ''{'') s;
          m = rev (dropWhile (\<lambda>c. c \<noteq> CHR ''}'') (rev t))
      in if m = [] then None else Some m)"

text \<open>\<open>content.match(/https?:\/\/[^\s]+/g) || []\<close>\<close>

function find_urls :: "string \<Rightarrow> string list" where
  "find_urls [] = []"
| "find_urls (c # cs) =
     (let pre = (if startsWith (c # cs) ''https://'' then 8
                 else if startsWith (c # cs) ''http://'' then 7 else 0);
          body = takeWhile (\<lambda>x. \<not> is_space x) (drop pre (c # cs))
      in if pre > 0 \<and> body \<noteq> []
         then (take pre (c # cs) @ body) # find_urls (drop (pre + length body) (c # cs))
         else find_urls cs)"
  by pat_completeness auto
termination
  by (relation "measure length") auto

text \<open>\<open>String.prototype.split\<close> on one character.\<close>

fun split_on :: "char \<Rightarrow> string \<Rightarrow> string list" where
  "split_on d [] = [[]]"
| "split_on d (c # cs) =
     (case split_on d cs of
        [] \<Rightarrow> [[c]]
      | x # xs \<Rightarrow> if c = d then [] # x # xs else (c # x) # xs)"

text \<open>\<open>xs.slice(0, n)\<close> for an integer \<open>n\<close>: a negative \<open>n\<close> counts from the end.\<close>

definition slice0 :: "'a list \<Rightarrow> int \<Rightarrow> 'a list" where
  "slice0 xs n = (if 0 \<le> n then take (nat n) xs else take (length xs - nat (- n)) xs)"

text \<open>\<open>response.choices[0]?.message\<close>, and its content when that is truthy.\<close>

definition first_message :: "GrokChatResponse \<Rightarrow> choice option" where
  "first_message r = (case choices r of [] \<Rightarrow> None | c # cs \<Rightarrow> Some c)"

definition first_content :: "GrokChatResponse \<Rightarrow> string option" where
  "first_content r =
     (case first_message r of
        None \<Rightarrow> None
      | Some c \<Rightarrow> if truthy_str (c_content c) then c_content c else None)"

section \<open>Search by simulation (src/grok-client.ts)\<close>

text \<open>\<open>${request.max_results || 5}\<close>\<close>

definition show_max_results :: "world \<Rightarrow> int option \<Rightarrow> string" where
  "show_max_results w m =
     (case m of
        None \<Rightarrow> Number_toString w 5
      | Some n \<Rightarrow> if n = 0 then Number_toString w 5 else Number_toString w (of_int n))"

definition searchPrompt :: "world \<Rightarrow> GrokSearchRequest \<Rightarrow> string" where
  "searchPrompt w request = concat
       [''I need you to simulate web search results for the query: '' @ dq @ query request @ dq @ nl,
        nl,
        ''Please provide '' @ show_max_results w (max_results request) @ '' realistic search results that someone would find when searching for this topic online.'' @ nl,
        nl,
        ''Respond with ONLY valid JSON in this exact format:'' @ nl,
        ''{'' @ nl,
        ''  '' @ dq @ ''results'' @ dq @ '': ['' @ nl,
        ''    {'' @ nl,
        ''      '' @ dq @ ''title'' @ dq @ '': '' @ dq @ ''Title of the webpage'' @ dq @ '','' @ nl,
        ''      '' @ dq @ ''url'' @ dq @ '': '' @ dq @ ''https://example.com/page'' @ dq @ '','' @ nl,
        ''      '' @ dq @ ''snippet'' @ dq @ '': '' @ dq @ ''Brief description of what this page contains'' @ dq @ '','' @ nl,
        ''      '' @ dq @ ''published_date'' @ dq @ '': '' @ dq @ ''2024-01-01'' @ dq @ '' (optional)'' @ nl,
        ''    }'' @ nl,
        ''  ]'' @ nl,
        ''}'' @ nl,
        nl,
        ''Make sure:'' @ nl,
        ''- URLs are realistic and related to the topic'' @ nl,
        ''- Snippets are informative and relevant'' @ nl,
        ''- No extra text outside the JSON'' @ nl,
        ''- Each result has title, url, and snippet'']"

definition fallbackResults :: "GrokSearchRequest \<Rightarrow> string \<Rightarrow> SearchResult list" where
  "fallbackResults request encoded =
     [\<lparr>title = ''Search results for: '' @ query request,
       url = ''https://www.google.com/search?q='' @ encoded,
       snippet = ''Information about '' @ query request
         @ '' - simulated search result as the live search API is not available.'',
       published_date = None, source = None\<rparr>]"

text \<open>The chat request of \<open>simulateSearch\<close>.\<close>

definition simulate_request :: "world \<Rightarrow> GrokSearchRequest \<Rightarrow> GrokChatRequest" where
  "simulate_request w request =
     [Messages (Some
        [\<lparr>role = System, msg_content = ''You are a search results generator. Respond ONLY with valid JSON. Do not include any explanation or additional text.''\<rparr>,
         \<lparr>role = User, msg_content = searchPrompt w request\<rparr>]),
      Temperature (Some (Fin (1 / 10))),
      Max_tokens (Some (Fin 2000))]"

text \<open>
  The first lines of its \<open>try\<close>: the content of the first choice (or the empty
  document \<open>{"results": []}\<close>), trimmed, without code fences, cut to its outermost
  braces.
\<close>

definition empty_document :: string where
  "empty_document = ''{'' @ dq @ ''results'' @ dq @ '': []}''"

definition extract_document :: "GrokChatResponse \<Rightarrow> string" where
  "extract_document chatResponse =
     (let content0 = (case first_content chatResponse of
                        Some c \<Rightarrow> c
                      | None \<Rightarrow> empty_document);
          content1 = strip_fences (trim content0)
      in case match_braces content1 of Some m \<Rightarrow> m | None \<Rightarrow> content1)"

text \<open>
  \<open>simulateSearch\<close>. The chat completion is awaited outside the \<open>try\<close>, so its failure
  is the failure of \<open>simulateSearch\<close>. Inside the \<open>try\<close> the document is parsed and
  its results returned. The \<open>catch\<close> builds the one fallback result;
  \<open>encodeURIComponent\<close> is called there.
\<close>

definition simulateSearch ::
  "world \<Rightarrow> GrokConfig \<Rightarrow> GrokSearchRequest \<Rightarrow> state \<Rightarrow> (thrown + GrokSearchResponse) \<times> state" where
  "simulateSearch w config request s =
     (case chatCompletion w config (simulate_request w request) s of
        (Inl error, s1) \<Rightarrow> (Inl error, s1)
      | (Inr chatResponse, s1) \<Rightarrow>
          (case JSON_parse_results w (extract_document chatResponse) of
             Some parsed_results \<Rightarrow>
               (Inr \<lparr>results = (case parsed_results of Some rs \<Rightarrow> rs | None \<Rightarrow> []),
                     total_results = (case parsed_results of
                                        Some rs \<Rightarrow> of_nat (length rs) | None \<Rightarrow> 0),
                     search_time = 1 / 2\<rparr>, s1)
           | None \<Rightarrow>
               (case encodeURIComponent w (query request) of
                  None \<Rightarrow> (Inl (OtherError (Some ''URI malformed'')), s1)
                | Some encoded \<Rightarrow>
                    (Inr \<lparr>results = fallbackResults request encoded,
                          total_results = of_nat (length (fallbackResults request encoded)),
                          search_time = 1 / 2\<rparr>, s1))))"

text \<open>
  \<open>liveSearch\<close> of this revision: the cache, then \<open>POST /search\<close>; an axios error
  falls back to \<open>simulateSearch\<close>, any other thrown value is rethrown.
\<close>

definition liveSearch ::
  "world \<Rightarrow> GrokConfig \<Rightarrow> GrokSearchRequest \<Rightarrow> state \<Rightarrow> (thrown + GrokSearchResponse) \<times> state" where
  "liveSearch w config request s =
     (case lru_get (clock s) (search_hit request) (cache s) of
        (Some (SearchEntry k cached, t), es) \<Rightarrow> (Inr cached, s\<lparr>cache := es\<rparr>)
      | (_, es) \<Rightarrow>
          (let s1 = issue w (PostSearch request) (s\<lparr>cache := es\<rparr>)
           in (case search_endpoint w (length (net_log s)) request of
                 Inr data \<Rightarrow>
                   (Inr data,
                    s1\<lparr>cache := lru_set (clock s1) (search_hit request)
                                  (SearchEntry request data) (cache s1)\<rparr>)
               | Inl (AxiosError status api_message message) \<Rightarrow>
                   simulateSearch w config request s1
               | Inl (Failure error) \<Rightarrow> (Inl error, s1))))"

section \<open>Native search (the revision of grok-client.ts with \<open>search_parameters\<close>)\<close>

text \<open>
  \<open>extractTitleFromUrl\<close>: the last non-empty segment of the path, or the host name;
  dashes and underscores become spaces; at most 100 characters. A URL that does not
  parse gives \<open>'Search Result'\<close>.
\<close>

definition extractTitleFromUrl :: "world \<Rightarrow> string \<Rightarrow> string" where
  "extractTitleFromUrl w u =
     (case new_URL w u of
        None \<Rightarrow> ''Search Result''
      | Some (hostname, pathname) \<Rightarrow>
          let segments = filter (\<lambda>x. x \<noteq> []) (split_on (CHR ''/'') pathname);
              path = (if segments = [] then hostname else last segments)
          in take 100 (map (\<lambda>c. if c = CHR ''-'' \<or> c = CHR ''_'' then CHR '' '' else c) path))"

text \<open>
  One \<open>results.push({...})\<close> of a URL: the title first, and then
  \<open>new URL(url).hostname\<close>, which throws on a URL that does not parse.
\<close>

definition url_result :: "world \<Rightarrow> string \<Rightarrow> string \<Rightarrow> thrown + SearchResult" where
  "url_result w ctext u =
     (let t = extractTitleFromUrl w u
      in case new_URL w u of
           None \<Rightarrow> Inl (OtherError (Some ''Invalid URL''))
         | Some (hostname, pathname) \<Rightarrow>
             Inr \<lparr>title = t, url = u, snippet = take 200 ctext,
                  published_date = None, source = Some hostname\<rparr>)"

text \<open>The first \<open>for\<close> loop of \<open>parseSearchResults\<close>, over the citations.\<close>

fun push_citations ::
  "world \<Rightarrow> string \<Rightarrow> string list \<Rightarrow> SearchResult list \<Rightarrow> thrown + SearchResult list" where
  "push_citations w ctext [] acc = Inr acc"
| "push_citations w ctext (u # us) acc =
     (case url_result w ctext u of
        Inl error \<Rightarrow> Inl error
      | Inr r \<Rightarrow> push_citations w ctext us (acc @ [r]))"

text \<open>The second loop, over the URLs found in the text that are no citations.\<close>

fun push_found ::
  "world \<Rightarrow> string \<Rightarrow> string list \<Rightarrow> string list \<Rightarrow> SearchResult list \<Rightarrow> thrown + SearchResult list" where
  "push_found w ctext citations [] acc = Inr acc"
| "push_found w ctext citations (u # us) acc =
     (if u \<in> set citations then push_found w ctext citations us acc
      else case url_result w ctext u of
             Inl error \<Rightarrow> Inl error
           | Inr r \<Rightarrow> push_found w ctext citations us (acc @ [r]))"

definition generic_result :: "string \<Rightarrow> SearchResult" where
  "generic_result ctext =
     \<lparr>title = ''Search Result'', url = ''https://grok.com'', snippet = take 300 ctext,
      published_date = None, source = Some ''grok''\<rparr>"

definition parseSearchResults ::
  "world \<Rightarrow> string \<Rightarrow> string list \<Rightarrow> int option \<Rightarrow> thrown + SearchResult list" where
  "parseSearchResults w ctext citations maxResults =
     (let limit = (case maxResults of None \<Rightarrow> 10 | Some n \<Rightarrow> if n = 0 then 10 else n)
      in case (if citations \<noteq> [] then push_citations w ctext (slice0 citations limit) []
               else Inr []) of
           Inl error \<Rightarrow> Inl error
         | Inr results1 \<Rightarrow>
             (case (if int (length results1) < limit
                    then push_found w ctext citations
                           (slice0 (find_urls ctext) (limit - int (length results1))) results1
                    else Inr results1) of
                Inl error \<Rightarrow> Inl error
              | Inr results2 \<Rightarrow>
                  Inr (if length results2 = 0 then results2 @ [generic_result ctext]
                       else results2)))"

text \<open>The \<open>from_date\<close> of the search parameters; \<open>getDateOffset\<close> reads the clock.\<close>

definition from_date_of :: "world \<Rightarrow> nat \<Rightarrow> time_filter option \<Rightarrow> string option" where
  "from_date_of w now f =
     (if f = Some Day then Some (date_days_ago w now 1)
      else if f = Some Week then Some (date_days_ago w now 7)
      else if f = Some Month then Some (date_days_ago w now 30)
      else if f = Some Year then Some (date_days_ago w now 365)
      else None)"

text \<open>
  \<open>liveSearch\<close> of this revision: the cache, then, inside one \<open>try\<close>, a chat
  completion with search parameters (\<open>native_request\<close>) and the extraction of the
  results, which are cached and returned. The \<open>catch\<close> throws \<open>ExternalServiceError('Live search failed', 500)\<close>
  whatever was caught.
\<close>

definition native_request :: "world \<Rightarrow> nat \<Rightarrow> GrokSearchRequest \<Rightarrow> GrokChatRequest" where
  "native_request w now request =
     [Messages (Some [\<lparr>role = User, msg_content = ''Search for: '' @ query request\<rparr>]),
      Search_parameters (Some
        \<lparr>mode = ''always'', return_citations = True,
         sources = (if include_news request = Some True then [''web'', ''news''] else [''web'']),
         from_date = from_date_of w now (time_filter request)\<rparr>),
      Temperature (Some (Fin (3 / 10))),
      Max_tokens (Some (Fin 2000))]"

definition liveSearch_native ::
  "world \<Rightarrow> GrokConfig \<Rightarrow> GrokSearchRequest \<Rightarrow> state \<Rightarrow> (thrown + GrokSearchResponse) \<times> state" where
  "liveSearch_native w config request s =
     (case lru_get (clock s) (search_hit request) (cache s) of
        (Some (SearchEntry k cached, t), es) \<Rightarrow> (Inr cached, s\<lparr>cache := es\<rparr>)
      | (_, es) \<Rightarrow>
          (case chatCompletion w config (native_request w (clock s) request)
                  (s\<lparr>cache := es\<rparr>) of
             (Inl error, s1) \<Rightarrow> (Inl (ExternalServiceError ''Live search failed'' 500), s1)
           | (Inr chatResponse, s1) \<Rightarrow>
               (let message = first_message chatResponse;
                    content = (case first_content chatResponse of Some c \<Rightarrow> c | None \<Rightarrow> []);
                    citations = (case message of
                                   None \<Rightarrow> []
                                 | Some m \<Rightarrow> (case c_citations m of None \<Rightarrow> [] | Some cs \<Rightarrow> cs))
                in case parseSearchResults w content citations (max_results request) of
                     Inl error \<Rightarrow> (Inl (ExternalServiceError ''Live search failed'' 500), s1)
                   | Inr rs \<Rightarrow>
                       (let response = \<lparr>results = rs, total_results = of_nat (length rs),
                                        search_time = 1 / 2\<rparr>
                        in (Inr response,
                            s1\<lparr>cache := lru_set (clock s1) (search_hit request)
                                          (SearchEntry request response) (cache s1)\<rparr>)))))"

section \<open>\<open>ask\<close>, \<open>testConnection\<close>, \<open>getModels\<close>\<close>

text \<open>The \<open>options\<close> object of \<open>ask\<close>; every call of the server passes one.\<close>

record ask_options =
  o_temperature :: "jsnum option"
  o_maxTokens :: "jsnum option"
  o_includeSearch :: "bool option"
  o_model :: "string option"

definition ask_messages :: "string \<Rightarrow> string option \<Rightarrow> string option \<Rightarrow> GrokMessage list" where
  "ask_messages question context systemPrompt =
     (if truthy_str systemPrompt then [\<lparr>role = System, msg_content = the systemPrompt\<rparr>] else [])
     @ (if truthy_str context
        then [\<lparr>role = User, msg_content =
                 ''Context: '' @ the context @ nl @ nl @ ''Question: '' @ question\<rparr>]
        else [\<lparr>role = User, msg_content = question\<rparr>])"

definition answer_of :: "GrokChatResponse \<Rightarrow> string" where
  "answer_of r = (case first_content r of Some c \<Rightarrow> c | None \<Rightarrow> ''No response generated'')"

definition searchContext :: "SearchResult list \<Rightarrow> string" where
  "searchContext rs =
     join (nl @ nl)
       (map (\<lambda>r. ''Title: '' @ title r @ nl @ ''URL: '' @ url r @ nl @ ''Snippet: '' @ snippet r) rs)"

text \<open>
  \<open>ask\<close> of src/grok-client.ts: with \<open>includeSearch\<close> it runs \<open>liveSearch\<close> first,
  inside a \<open>try\<close> whose \<open>catch\<close> only logs, and adds the results as a system message.
\<close>

definition ask ::
  "world \<Rightarrow> GrokConfig \<Rightarrow> string \<Rightarrow> string option \<Rightarrow> string option \<Rightarrow> ask_options \<Rightarrow> state
     \<Rightarrow> (thrown + string) \<times> state" where
  "ask w config question context systemPrompt options s =
     (let messages0 = ask_messages question context systemPrompt;
          (messages, s1) =
            (if o_includeSearch options = Some True
             then (case liveSearch w config
                          \<lparr>query = question, max_results = Some 3, include_images = None,
                           include_news = None, time_filter = None\<rparr> s of
                     (Inr searchResults, s') \<Rightarrow>
                       (if length (results searchResults) > 0
                        then messages0 @ [\<lparr>role = System, msg_content =
                               ''Recent search results for context:'' @ nl @ nl
                               @ searchContext (results searchResults)\<rparr>]
                        else messages0, s')
                   | (Inl searchError, s') \<Rightarrow> (messages0, s'))
             else (messages0, s))
      in case chatCompletion w config
                [Messages (Some messages), Model (o_model options),
                 Temperature (o_temperature options), Max_tokens (o_maxTokens options)] s1 of
           (Inl error, s2) \<Rightarrow> (Inl error, s2)
         | (Inr response, s2) \<Rightarrow> (Inr (answer_of response), s2))"

text \<open>
  \<open>ask\<close> of the revision with native search: \<open>includeSearch\<close> adds the search
  parameters to the one chat request.
\<close>

definition ask_native ::
  "world \<Rightarrow> GrokConfig \<Rightarrow> string \<Rightarrow> string option \<Rightarrow> string option \<Rightarrow> ask_options \<Rightarrow> state
     \<Rightarrow> (thrown + string) \<times> state" where
  "ask_native w config question context systemPrompt options s =
     (let messages = ask_messages question context systemPrompt;
          chatRequest = [Messages (Some messages), Model (o_model options),
                         Temperature (o_temperature options), Max_tokens (o_maxTokens options)]
            @ (if o_includeSearch options = Some True
               then [Search_parameters (Some
                       \<lparr>mode = ''always'', return_citations = True,
                        sources = [''web'', ''news''], from_date = None\<rparr>)]
               else [])
      in case chatCompletion w config chatRequest s of
           (Inl error, s1) \<Rightarrow> (Inl error, s1)
         | (Inr response, s1) \<Rightarrow> (Inr (answer_of response), s1))"

text \<open>\<open>testConnection\<close>: \<open>true\<close> when the minimal chat completion returns, \<open>false\<close> in the \<open>catch\<close>.\<close>

definition hello_request :: GrokChatRequest where
  "hello_request =
     [Messages (Some [\<lparr>role = User, msg_content = ''Hello, are you working?''\<rparr>]),
      Max_tokens (Some (Fin 10))]"

definition testConnection :: "world \<Rightarrow> GrokConfig \<Rightarrow> state \<Rightarrow> (thrown + bool) \<times> state" where
  "testConnection w config s =
     (case chatCompletion w config hello_request s of
        (Inr response, s1) \<Rightarrow> (Inr True, s1)
      | (Inl error, s1) \<Rightarrow> (Inr False, s1))"

text \<open>
  \<open>getModels\<close>: \<open>GET /models\<close> (not through the limiter); the ids of \<open>data.data\<close>, or
  one default when \<open>data.data\<close> is missing; the fixed list in the \<open>catch\<close>. The two
  revisions differ in the constants only.
\<close>

definition getModels_with ::
  "string list \<Rightarrow> string list \<Rightarrow> world \<Rightarrow> state \<Rightarrow> (thrown + string list) \<times> state" where
  "getModels_with missing fallback w s =
     (let s1 = issue w GetModels s
      in case models_endpoint w (length (net_log s)) of
           Inr data \<Rightarrow> (Inr (case data of Some ids \<Rightarrow> ids | None \<Rightarrow> missing), s1)
         | Inl error \<Rightarrow> (Inr fallback, s1))"

definition fallback_models :: "string list" where
  "fallback_models =
     [''grok-4-1-fast-reasoning'', ''grok-4-1-fast-non-reasoning'', ''grok-code-fast-1'',
      ''grok-4'', ''grok-3'']"

definition fallback_models_native :: "string list" where
  "fallback_models_native =
     [''grok-4.1-fast'', ''grok-4-1-fast-reasoning'', ''grok-4-1-fast-non-reasoning'',
      ''grok-code-fast-1'', ''grok-4'']"

definition getModels :: "world \<Rightarrow> state \<Rightarrow> (thrown + string list) \<times> state" where
  "getModels = getModels_with [''grok-4''] fallback_models"

definition getModels_native :: "world \<Rightarrow> state \<Rightarrow> (thrown + string list) \<times> state" where
  "getModels_native = getModels_with [''grok-4.1-fast''] fallback_models_native"

text \<open>
  The methods of the \<open>grokClient\<close> object the server calls. The server reaches them
  through the object, and the repository's test replaces some of them by mocks.
\<close>

record client =
  client_ask :: "string \<Rightarrow> string option \<Rightarrow> string option \<Rightarrow> ask_options \<Rightarrow> state \<Rightarrow> (thrown + string) \<times> state"
  client_chatCompletion :: "GrokChatRequest \<Rightarrow> state \<Rightarrow> (thrown + GrokChatResponse) \<times> state"
  client_liveSearch :: "GrokSearchRequest \<Rightarrow> state \<Rightarrow> (thrown + GrokSearchResponse) \<times> state"
  client_getModels :: "state \<Rightarrow> (thrown + string list) \<times> state"
  client_testConnection :: "state \<Rightarrow> (thrown + bool) \<times> state"

definition GrokClient :: "world \<Rightarrow> GrokConfig \<Rightarrow> client" where
  "GrokClient w config =
     \<lparr>client_ask = ask w config,
      client_chatCompletion = chatCompletion w config,
      client_liveSearch = liveSearch w config,
      client_getModels = getModels w,
      client_testConnection = testConnection w config\<rparr>"

definition GrokClient_native :: "world \<Rightarrow> GrokConfig \<Rightarrow> client" where
  "GrokClient_native w config =
     \<lparr>client_ask = ask_native w config,
      client_chatCompletion = chatCompletion w config,
      client_liveSearch = liveSearch_native w config,
      client_getModels = getModels_native w,
      client_testConnection = testConnection w config\<rparr>"

section \<open>JavaScript values in the handler\<close>

text \<open>Reading and writing a property of an object; a missing property reads as \<open>undefined\<close>.\<close>

definition get_prop :: "(string \<times> json) list \<Rightarrow> string \<Rightarrow> json" where
  "get_prop kvs k = (case map_of kvs k of None \<Rightarrow> JUndefined | Some v \<Rightarrow> v)"

fun set_prop :: "(string \<times> json) list \<Rightarrow> string \<Rightarrow> json \<Rightarrow> (string \<times> json) list" where
  "set_prop [] k v = [(k, v)]"
| "set_prop ((k', v') # kvs) k v =
     (if k' = k then (k, v) # kvs else (k', v') # set_prop kvs k v)"

fun truthy :: "json \<Rightarrow> bool" where
  "truthy JUndefined = False"
| "truthy JNull = False"
| "truthy (JBool b) = b"
| "truthy (JNum (Fin r)) = (r \<noteq> 0)"
| "truthy (JNum NaN) = False"
| "truthy (JNum PosInf) = True"
| "truthy (JNum NegInf) = True"
| "truthy (JString s) = (s \<noteq> [])"
| "truthy (JArray xs) = True"
| "truthy (JObject kvs) = True"

text \<open>\<open>Number(v)\<close>; strings, arrays and objects go through the runtime's conversion.\<close>

fun Number_js :: "world \<Rightarrow> json \<Rightarrow> jsnum" where
  "Number_js w (JNum n) = n"
| "Number_js w (JBool b) = Fin (if b then 1 else 0)"
| "Number_js w JNull = Fin 0"
| "Number_js w JUndefined = NaN"
| "Number_js w v = Number_of w v"

fun Math_floor :: "jsnum \<Rightarrow> jsnum" where
  "Math_floor (Fin r) = Fin (of_int \<lfloor>r\<rfloor>)"
| "Math_floor n = n"

section \<open>Schema validation (the zod schemas of index.ts)\<close>

text \<open>
  The validation library is not among the sources; the schemas are. Each validator
  returns the parsed value, or \<open>None\<close> where \<open>safeParse\<close> would report an issue.
  \<open>z.string()\<close> accepts strings, \<open>z.boolean()\<close> booleans, \<open>z.number()\<close> numbers other
  than \<open>NaN\<close>; \<open>.min\<close> and \<open>.max\<close> compare; \<open>.int()\<close> asks for an integer;
  \<open>.optional()\<close> also accepts \<open>undefined\<close>; \<open>z.object\<close> accepts a plain object, reads
  the keys of its shape and ignores the others.
\<close>

fun z_string :: "json \<Rightarrow> string option" where
  "z_string (JString s) = Some s"
| "z_string v = None"

fun z_boolean :: "json \<Rightarrow> bool option" where
  "z_boolean (JBool b) = Some b"
| "z_boolean v = None"

fun z_number_min_max :: "rat \<Rightarrow> rat \<Rightarrow> json \<Rightarrow> jsnum option" where
  "z_number_min_max lo hi (JNum (Fin r)) = (if lo \<le> r \<and> r \<le> hi then Some (Fin r) else None)"
| "z_number_min_max lo hi v = None"

fun z_number_int :: "json \<Rightarrow> int option" where
  "z_number_int (JNum (Fin r)) = (if r = of_int \<lfloor>r\<rfloor> then Some \<lfloor>r\<rfloor> else None)"
| "z_number_int v = None"

fun z_optional :: "(json \<Rightarrow> 'a option) \<Rightarrow> json \<Rightarrow> 'a option option" where
  "z_optional f JUndefined = Some None"
| "z_optional f v = map_option Some (f v)"

definition z_role :: "json \<Rightarrow> role option" where
  "z_role v =
     (if v = JString ''system'' then Some System
      else if v = JString ''user'' then Some User
      else if v = JString ''assistant'' then Some Assistant
      else None)"

definition z_time_filter :: "json \<Rightarrow> time_filter option" where
  "z_time_filter v =
     (if v = JString ''day'' then Some Day
      else if v = JString ''week'' then Some Week
      else if v = JString ''month'' then Some Month
      else if v = JString ''year'' then Some Year
      else if v = JString ''all'' then Some All
      else None)"

record grok_ask_args =
  question :: string
  ask_context :: "string option"
  system_prompt :: "string option"
  temperature :: "jsnum option"
  max_tokens :: "jsnum option"
  include_search :: "bool option"
  model :: "string option"

text \<open>\<open>grokAskSchema.safeParse\<close>; the question is \<open>z.string().min(1, ...)\<close>.\<close>

fun parse_grok_ask :: "json \<Rightarrow> grok_ask_args option" where
  "parse_grok_ask (JObject kvs) =
     (case (z_string (get_prop kvs ''question''),
            z_optional z_string (get_prop kvs ''context''),
            z_optional z_string (get_prop kvs ''system_prompt''),
            z_optional (z_number_min_max 0 1) (get_prop kvs ''temperature''),
            z_optional (z_number_min_max 1 8000) (get_prop kvs ''max_tokens''),
            z_optional z_boolean (get_prop kvs ''include_search''),
            z_optional z_string (get_prop kvs ''model'')) of
        (Some q, Some c, Some sp, Some t, Some mt, Some i, Some m) \<Rightarrow>
          if length q \<ge> 1
          then Some \<lparr>question = q, ask_context = c, system_prompt = sp, temperature = t,
                     max_tokens = mt, include_search = i, model = m\<rparr>
          else None
      | _ \<Rightarrow> None)"
| "parse_grok_ask v = None"

fun z_message :: "json \<Rightarrow> GrokMessage option" where
  "z_message (JObject kvs) =
     (case (z_role (get_prop kvs ''role''), z_string (get_prop kvs ''content'')) of
        (Some r, Some c) \<Rightarrow> Some \<lparr>role = r, msg_content = c\<rparr>
      | _ \<Rightarrow> None)"
| "z_message v = None"

fun z_array :: "(json \<Rightarrow> 'a option) \<Rightarrow> json \<Rightarrow> 'a list option" where
  "z_array f (JArray xs) =
     (if list_all (\<lambda>x. f x \<noteq> None) xs then Some (map (\<lambda>x. the (f x)) xs) else None)"
| "z_array f v = None"

record grok_chat_args =
  chat_messages :: "GrokMessage list"
  chat_model :: "string option"
  chat_temperature :: "jsnum option"
  chat_max_tokens :: "jsnum option"

text \<open>\<open>grokChatSchema.safeParse\<close>\<close>

fun parse_grok_chat :: "json \<Rightarrow> grok_chat_args option" where
  "parse_grok_chat (JObject kvs) =
     (case (z_array z_message (get_prop kvs ''messages''),
            z_optional z_string (get_prop kvs ''model''),
            z_optional (z_number_min_max 0 1) (get_prop kvs ''temperature''),
            z_optional (z_number_min_max 1 8000) (get_prop kvs ''max_tokens'')) of
        (Some ms, Some m, Some t, Some mt) \<Rightarrow>
          Some \<lparr>chat_messages = ms, chat_model = m, chat_temperature = t, chat_max_tokens = mt\<rparr>
      | _ \<Rightarrow> None)"
| "parse_grok_chat v = None"

text \<open>
  \<open>grokSearchSchema.safeParse\<close>; \<open>max_results\<close> is
  \<open>z.number().int().optional()\<close>, with no bound.
\<close>

fun parse_grok_search :: "json \<Rightarrow> GrokSearchRequest option" where
  "parse_grok_search (JObject kvs) =
     (case (z_string (get_prop kvs ''query''),
            z_optional z_number_int (get_prop kvs ''max_results''),
            z_optional z_boolean (get_prop kvs ''include_images''),
            z_optional z_boolean (get_prop kvs ''include_news''),
            z_optional z_time_filter (get_prop kvs ''time_filter'')) of
        (Some q, Some mr, Some ii, Some inw, Some tf) \<Rightarrow>
          Some \<lparr>query = q, max_results = mr, include_images = ii, include_news = inw,
                time_filter = tf\<rparr>
      | _ \<Rightarrow> None)"
| "parse_grok_search v = None"

text \<open>
  The coercion before the search schema:
  \<open>if (safeArgs.max_results) safeArgs.max_results = Math.floor(Number(safeArgs.max_results))\<close>.
  Reading a property of \<open>undefined\<close> or \<open>null\<close> throws a \<open>TypeError\<close>; a string, a
  number, a boolean or an array has no such property.
\<close>

definition cannot_read :: "string \<Rightarrow> string \<Rightarrow> thrown" where
  "cannot_read what prop =
     OtherError (Some (''Cannot read properties of '' @ what @ '' (reading '' @ [CHR 0x27]
       @ prop @ [CHR 0x27] @ '')''))"

fun coerce_max_results :: "world \<Rightarrow> json \<Rightarrow> thrown + json" where
  "coerce_max_results w JUndefined = Inl (cannot_read ''undefined'' ''max_results'')"
| "coerce_max_results w JNull = Inl (cannot_read ''null'' ''max_results'')"
| "coerce_max_results w (JObject kvs) =
     (if truthy (get_prop kvs ''max_results'')
      then Inr (JObject (set_prop kvs ''max_results''
                  (JNum (Math_floor (Number_js w (get_prop kvs ''max_results''))))))
      else Inr (JObject kvs))"
| "coerce_max_results w v = Inr v"

section \<open>The tool-call handler (index.ts)\<close>

text \<open>
  The three safe wrappers: a failure of the client's method is thrown again as an
  \<open>ExternalServiceError\<close> with status 502, whose message carries the caught message
  when that is truthy.
\<close>

definition wrap_failure :: "string \<Rightarrow> thrown \<Rightarrow> thrown" where
  "wrap_failure prefix err =
     ExternalServiceError
       (if truthy_str (message_of err) then prefix @ '': '' @ the (message_of err) else prefix)
       502"

definition safeAsk ::
  "client \<Rightarrow> string \<Rightarrow> string option \<Rightarrow> string option \<Rightarrow> ask_options \<Rightarrow> state
     \<Rightarrow> (thrown + string) \<times> state" where
  "safeAsk c q ctx systemPrompt options s =
     (case client_ask c q ctx systemPrompt options s of
        (Inl err, s1) \<Rightarrow> (Inl (wrap_failure ''Grok ask failed'' err), s1)
      | (Inr r, s1) \<Rightarrow> (Inr r, s1))"

definition safeChat ::
  "client \<Rightarrow> GrokChatRequest \<Rightarrow> state \<Rightarrow> (thrown + GrokChatResponse) \<times> state" where
  "safeChat c args s =
     (case client_chatCompletion c args s of
        (Inl err, s1) \<Rightarrow> (Inl (wrap_failure ''Grok chat failed'' err), s1)
      | (Inr r, s1) \<Rightarrow> (Inr r, s1))"

definition safeSearch ::
  "client \<Rightarrow> GrokSearchRequest \<Rightarrow> state \<Rightarrow> (thrown + GrokSearchResponse) \<times> state" where
  "safeSearch c args s =
     (case client_liveSearch c args s of
        (Inl err, s1) \<Rightarrow> (Inl (wrap_failure ''Grok search failed'' err), s1)
      | (Inr r, s1) \<Rightarrow> (Inr r, s1))"

text \<open>
  The timer: \<open>latencyHistogram.startTimer()\<close> reads the clock, and the function it
  returns, \<open>end\<close>, observes the seconds since then. The counters and the timer are
  used without labels.
\<close>

definition end_timer :: "nat \<Rightarrow> state \<Rightarrow> state" where
  "end_timer start s =
     s\<lparr>latencyHistogram := latencyHistogram s @ [([], of_nat (clock s - start) / 1000)]\<rparr>"

definition inc_requests :: "state \<Rightarrow> state" where
  "inc_requests s = s\<lparr>requestCounter := requestCounter s @ [[]]\<rparr>"

definition inc_errors :: "state \<Rightarrow> state" where
  "inc_errors s = s\<lparr>errorCounter := errorCounter s @ [[]]\<rparr>"

text \<open>\<open>case 'grok_ask'\<close>\<close>

definition tool_grok_ask ::
  "client \<Rightarrow> nat \<Rightarrow> json \<Rightarrow> state \<Rightarrow> (thrown + response) \<times> state" where
  "tool_grok_ask c start safeArgs s =
     (case parse_grok_ask safeArgs of
        None \<Rightarrow> (Inl (ValidationError ''Invalid input for grok_ask''), s)
      | Some d \<Rightarrow>
          (case safeAsk c (question d) (ask_context d) (system_prompt d)
                  \<lparr>o_temperature = temperature d, o_maxTokens = max_tokens d,
                   o_includeSearch = include_search d, o_model = model d\<rparr> s of
             (Inl err, s1) \<Rightarrow> (Inl err, s1)
           | (Inr r, s1) \<Rightarrow> (Inr (text_response r), end_timer start s1)))"

text \<open>
  \<open>case 'grok_chat'\<close>; \<open>chat_tool_request\<close> is the object
  \<open>{ messages, model, temperature, max_tokens }\<close> handed to \<open>safeChat\<close>.
\<close>

definition chat_tool_request :: "grok_chat_args \<Rightarrow> GrokChatRequest" where
  "chat_tool_request d =
     [Messages (Some (chat_messages d)), Model (chat_model d),
      Temperature (chat_temperature d), Max_tokens (chat_max_tokens d)]"

definition tool_grok_chat ::
  "client \<Rightarrow> nat \<Rightarrow> json \<Rightarrow> state \<Rightarrow> (thrown + response) \<times> state" where
  "tool_grok_chat c start safeArgs s =
     (case parse_grok_chat safeArgs of
        None \<Rightarrow> (Inl (ValidationError ''Invalid input for grok_chat''), s)
      | Some d \<Rightarrow>
          (case safeChat c (chat_tool_request d) s of
             (Inl err, s1) \<Rightarrow> (Inl err, s1)
           | (Inr r, s1) \<Rightarrow> (Inr (text_response (answer_of r)), end_timer start s1)))"

text \<open>The numbered list of \<open>case 'grok_search'\<close>.\<close>

definition format_result :: "world \<Rightarrow> nat \<times> SearchResult \<Rightarrow> string" where
  "format_result w ir =
     Number_toString w (of_nat (fst ir + 1)) @ ''. '' @ title (snd ir) @ nl @ url (snd ir) @ nl
     @ snippet (snd ir)
     @ (if truthy_str (published_date (snd ir))
        then nl @ ''Published: '' @ the (published_date (snd ir)) else [])"

definition formattedResults :: "world \<Rightarrow> SearchResult list \<Rightarrow> string" where
  "formattedResults w rs = join (nl @ nl) (map (format_result w) (enumerate 0 rs))"

text \<open>
  \<open>case 'grok_search'\<close>: the coercion, the schema, the search, the formatted text.
  This case returns without calling \<open>end\<close>.
\<close>

definition tool_grok_search ::
  "world \<Rightarrow> client \<Rightarrow> nat \<Rightarrow> json \<Rightarrow> state \<Rightarrow> (thrown + response) \<times> state" where
  "tool_grok_search w c start safeArgs s =
     (case coerce_max_results w safeArgs of
        Inl err \<Rightarrow> (Inl err, s)
      | Inr coerced \<Rightarrow>
          (case parse_grok_search coerced of
             None \<Rightarrow> (Inl (ValidationError ''Invalid input for grok_search''), s)
           | Some d \<Rightarrow>
               (case safeSearch c d s of
                  (Inl err, s1) \<Rightarrow> (Inl err, s1)
                | (Inr searchResults, s1) \<Rightarrow>
                    (Inr (text_response
                       (''Search Results for '' @ dq @ query d @ dq @ '' (''
                        @ Number_toString w (total_results searchResults)
                        @ '' results found in ''
                        @ Number_toString w (search_time searchResults) @ ''s):'' @ nl @ nl
                        @ formattedResults w (results searchResults))), s1))))"

text \<open>\<open>case 'grok_health'\<close>\<close>

definition tool_grok_health :: "world \<Rightarrow> nat \<Rightarrow> state \<Rightarrow> (thrown + response) \<times> state" where
  "tool_grok_health w start s =
     (let s1 = end_timer start s
      in (Inr \<lparr>content = [\<lparr>item_type = ''text'', item_text = ''OK: Grok 4 MCP Server healthy''\<rparr>],
               metrics = Some (register_metrics w s1)\<rparr>, s1))"

text \<open>\<open>case 'grok_models'\<close>\<close>

definition tool_grok_models :: "client \<Rightarrow> nat \<Rightarrow> state \<Rightarrow> (thrown + response) \<times> state" where
  "tool_grok_models c start s =
     (case client_getModels c s of
        (Inl err, s1) \<Rightarrow> (Inl err, s1)
      | (Inr models, s1) \<Rightarrow>
          (Inr (text_response
             (''Available Grok models:'' @ nl @ join nl (map (\<lambda>m. ''- '' @ m) models))),
           end_timer start s1))"

text \<open>
  \<open>case 'grok_test_connection'\<close>; each of the two messages starts with the bytes the
  source file holds there, before the first space.
\<close>

definition connected_text :: string where
  "connected_text =
     [CHR 0xC3, CHR 0xA2, CHR 0xC5, CHR 0x93, CHR 0xE2, CHR 0x80, CHR 0xA6]
     @ '' Grok API connection successful! Ready to use Grok 4.''"

definition not_connected_text :: string where
  "not_connected_text =
     [CHR 0xC3, CHR 0xA2, CHR 0xC5, CHR 0x92]
     @ '' Grok API connection failed. Please check your API key and configuration.''"

definition tool_grok_test_connection ::
  "client \<Rightarrow> nat \<Rightarrow> state \<Rightarrow> (thrown + response) \<times> state" where
  "tool_grok_test_connection c start s =
     (case client_testConnection c s of
        (Inl err, s1) \<Rightarrow> (Inl err, s1)
      | (Inr isConnected, s1) \<Rightarrow>
          (Inr (text_response (if isConnected then connected_text else not_connected_text)),
           end_timer start s1))"

text \<open>
  The body of the \<open>try\<close> of \<open>handleToolCall\<close>. The call of \<open>checkAuth\<close> is commented
  out in the source (``Auth check removed for open access''), so the body starts with
  the sanitization of the arguments and goes on with the \<open>switch\<close> on the tool name.
\<close>

definition handleToolCall_try ::
  "world \<Rightarrow> client \<Rightarrow> nat \<Rightarrow> request \<Rightarrow> state \<Rightarrow> (thrown + response) \<times> state" where
  "handleToolCall_try w c start request s =
     (let safeArgs = sanitize (arguments request)
      in if name request = ''grok_ask'' then tool_grok_ask c start safeArgs s
         else if name request = ''grok_chat'' then tool_grok_chat c start safeArgs s
         else if name request = ''grok_search'' then tool_grok_search w c start safeArgs s
         else if name request = ''grok_health'' then tool_grok_health w start s
         else if name request = ''grok_models'' then tool_grok_models c start s
         else if name request = ''grok_test_connection'' then tool_grok_test_connection c start s
         else (Inr (text_response (''Error: Unknown tool: '' @ name request)),
               end_timer start s))"

text \<open>
  \<open>handleToolCall\<close>: start the timer, count the request, run the body; the \<open>catch\<close>
  counts the error, stops the timer and returns \<open>handleError(error)\<close>. The process
  environment is in the handler's scope and is not read.
\<close>

definition handleToolCall ::
  "world \<Rightarrow> env \<Rightarrow> client \<Rightarrow> request \<Rightarrow> state \<Rightarrow> (thrown + response) \<times> state" where
  "handleToolCall w e c request s =
     (let start = clock s;
          s1 = inc_requests s
      in case handleToolCall_try w c start request s1 of
           (Inr r, s2) \<Rightarrow> (Inr r, s2)
         | (Inl error, s2) \<Rightarrow> (Inr (handleError error), end_timer start (inc_errors s2)))"

definition registered_tools :: "string list" where
  "registered_tools =
     [''grok_ask'', ''grok_chat'', ''grok_search'', ''grok_models'', ''grok_test_connection'',
      ''grok_health'']"

section \<open>What the specification says of the handler\<close>

text \<open>
  The message an error response shows, by kind of error: the message of a recognised
  error; the message of any other thrown value when it has a non-empty one; the generic
  text otherwise.
\<close>

fun surfaced_message :: "thrown \<Rightarrow> string" where
  "surfaced_message (ValidationError m) = m"
| "surfaced_message (AuthError m) = m"
| "surfaced_message (ExternalServiceError m c) = m"
| "surfaced_message (OtherError None) = ''Internal server error''"
| "surfaced_message (OtherError (Some m)) = (if m = [] then ''Internal server error'' else m)"

text \<open>
  The state in which the fallback of \<open>liveSearch\<close> starts: the lookup has missed and
  the \<open>POST /search\<close> has been issued.
\<close>

definition search_failed :: "world \<Rightarrow> GrokSearchRequest \<Rightarrow> state \<Rightarrow> state" where
  "search_failed w request s =
     issue w (PostSearch request)
       (s\<lparr>cache := snd (lru_get (clock s) (search_hit request) (cache s))\<rparr>)"

section \<open>Scenarios\<close>

text \<open>
  The configuration the server builds from an environment that holds only the API key
  (the key of the repository's test), the state of a process that has just started, and
  a world in which no endpoint can be reached. \<open>toString_table\<close> is number formatting
  on the few numbers the scenarios print.
\<close>

definition grokConfig :: GrokConfig where
  "grokConfig =
     \<lparr>apiKey = ''dummy-key-for-testing'', baseUrl = ''https://api.x.ai/v1'',
      cfg_model = ''grok-4.1-fast'', cfg_temperature = Fin (7 / 10), cfg_maxTokens = Fin 4000\<rparr>"

definition initial_state :: state where
  "initial_state =
     \<lparr>clock = 0, cache = [], net_log = [], requestCounter = [], errorCounter = [],
      latencyHistogram = []\<rparr>"

definition toString_table :: "rat \<Rightarrow> string" where
  "toString_table r =
     (if r = 0 then ''0'' else if r = 1 then ''1'' else if r = 2 then ''2''
      else if r = 3 then ''3'' else if r = 5 then ''5'' else if r = 1 / 2 then ''0.5''
      else if r = 500 then ''500'' else ''?'')"

definition offline_world :: world where
  "offline_world =
     \<lparr>chat_endpoint = (\<lambda>n full. Inl (AxiosError None None ''Network Error'')),
      search_endpoint = (\<lambda>n r. Inl (AxiosError None None ''Network Error'')),
      models_endpoint = (\<lambda>n. Inl (AxiosError None None ''Network Error'')),
      call_duration = (\<lambda>n. 100),
      JSON_parse_results = (\<lambda>d. None),
      encodeURIComponent = (\<lambda>q. Some q),
      new_URL = (\<lambda>u. None),
      date_days_ago = (\<lambda>now d. ''2025-01-01''),
      Number_toString = toString_table,
      Number_of = (\<lambda>v. NaN),
      register_metrics = (\<lambda>s. [])\<rparr>"

text \<open>A \<open>grok_search\<close> call that carries no arguments.\<close>

definition no_arguments_search :: request where
  "no_arguments_search =
     \<lparr>name = ''grok_search'', arguments = JUndefined, params_auth = None, auth = None\<rparr>"


text \<open>
  Worlds in which the upstream answers: every endpoint (\<open>online_world\<close>), the chat
  endpoint from the second network call on (\<open>flaky_world\<close>), the chat endpoint only,
  with an answer that is no JSON (\<open>chat_only_world\<close>), with no choice at all
  (\<open>silent_world\<close>, where \<open>JSON.parse\<close> reads the empty document) or with a JSON
  document that has no \<open>results\<close> (\<open>items_world\<close>); and one in which
  the limiter rejects the search call with an error that is no axios error
  (\<open>stopped_world\<close>).
\<close>

definition greeting :: GrokChatResponse where
  "greeting =
     \<lparr>resp_id = ''chatcmpl-1'', resp_model = ''grok-4.1-fast'',
      choices = [\<lparr>c_content = Some ''Hello!'', c_citations = None\<rparr>]\<rparr>"

definition one_result :: GrokSearchResponse where
  "one_result =
     \<lparr>results = [\<lparr>title = ''Test'', url = ''https://example.com/test'',
                   snippet = ''A test page'', published_date = None, source = None\<rparr>],
      total_results = 1, search_time = 1 / 2\<rparr>"

definition online_world :: world where
  "online_world = offline_world
     \<lparr>chat_endpoint := (\<lambda>n full. Inr greeting),
      search_endpoint := (\<lambda>n r. Inr one_result),
      models_endpoint := (\<lambda>n. Inr (Some [''grok-4'']))\<rparr>"


definition chat_only_world :: world where
  "chat_only_world = offline_world\<lparr>chat_endpoint := (\<lambda>n full. Inr greeting)\<rparr>"

definition no_choices :: GrokChatResponse where
  "no_choices = \<lparr>resp_id = ''chatcmpl-2'', resp_model = ''grok-4.1-fast'', choices = []\<rparr>"

definition silent_world :: world where
  "silent_world = offline_world
     \<lparr>chat_endpoint := (\<lambda>n full. Inr no_choices),
      JSON_parse_results := (\<lambda>d. if d = empty_document then Some (Some []) else None)\<rparr>"

definition items_document :: string where
  "items_document = ''{'' @ dq @ ''items'' @ dq @ '': []}''"

definition items_answer :: GrokChatResponse where
  "items_answer =
     \<lparr>resp_id = ''chatcmpl-3'', resp_model = ''grok-4.1-fast'',
      choices = [\<lparr>c_content = Some items_document, c_citations = None\<rparr>]\<rparr>"

definition items_world :: world where
  "items_world = offline_world
     \<lparr>chat_endpoint := (\<lambda>n full. Inr items_answer),
      JSON_parse_results := (\<lambda>d. if d = items_document then Some None else None)\<rparr>"

definition stopped_world :: world where
  "stopped_world = offline_world
     \<lparr>search_endpoint :=
        (\<lambda>n r. Inl (Failure (OtherError (Some ''This limiter has been stopped.''))))\<rparr>"



definition test_search :: GrokSearchRequest where
  "test_search =
     \<lparr>query = ''test'', max_results = None, include_images = None, include_news = None,
      time_filter = None\<rparr>"

definition test_search_request :: request where
  "test_search_request =
     \<lparr>name = ''grok_search'', arguments = JObject [(''query'', JString ''test'')],
      params_auth = None, auth = None\<rparr>"

definition all_models_request :: request where
  "all_models_request =
     \<lparr>name = ''grok_models'', arguments = JObject [], params_auth = None, auth = None\<rparr>"

definition negative_search_request :: request where
  "negative_search_request =
     \<lparr>name = ''grok_search'',
      arguments = JObject [(''query'', JString ''test''), (''max_results'', JNum (Fin (- 2)))],
      params_auth = None, auth = None\<rparr>"

definition float_search_request :: request where
  "float_search_request =
     \<lparr>name = ''grok_search'',
      arguments = JObject [(''query'', JString ''test''), (''max_results'', JNum (Fin (37 / 10)))],
      params_auth = None, auth = None\<rparr>"

text \<open>
  An argument tree with a number, strings that hold stripped characters, two keys that
  are dropped, and an array with an object inside.
\<close>

definition mixed_arguments :: json where
  "mixed_arguments =
     JObject [(''temperature'', JNum (Fin 1)), (''question'', JString ''<a>''),
              (''$where'', JNull), (''x__proto__'', JBool False),
              (''tags'', JArray [JString (''x'' @ [CHR 0x60] @ ''y''), JBool True,
                                 JObject [(''deep'', JString (dq @ ''z'' @ dq))]])]"

definition markup_question :: request where
  "markup_question =
     \<lparr>name = ''grok_ask'', arguments = JObject [(''question'', JString ''<>'')],
      params_auth = None, auth = None\<rparr>"

section \<open>Properties of sanitization\<close>

lemma strip_strip: "strip (strip s) = strip s"
  by (simp add: strip_def)

lemma strip_clean: "list_all (\<lambda>c. c \<notin> set strip_chars) (strip s)"
  by (simp add: strip_def list_all_iff)

lemma sanitize_idem_all:
  "sanitize (sanitize v) = sanitize v"
  "sanitize_items (sanitize_items xs) = sanitize_items xs"
  "sanitize_entries (sanitize_entries kvs) = sanitize_entries kvs"
  by (induction v and xs and kvs rule: sanitize_sanitize_items_sanitize_entries.induct)
     (simp_all add: strip_strip)

lemma sanitize_items_map: "sanitize_items xs = map sanitize xs"
  by (induction xs) simp_all

lemma sanitize_strings_clean:
  "strings_clean (sanitize v)"
  "strings_clean_items (sanitize_items xs)"
  "strings_clean_entries (sanitize_entries kvs)"
  by (induction v and xs and kvs rule: sanitize_sanitize_items_sanitize_entries.induct)
     (simp_all add: strip_clean)

lemma sanitize_keys_clean:
  "keys_clean (sanitize v)"
  "keys_clean_items (sanitize_items xs)"
  "keys_clean_entries (sanitize_entries kvs)"
  by (induction v and xs and kvs rule: sanitize_sanitize_items_sanitize_entries.induct)
     simp_all

text \<open>
  Claim C10. \<open>sanitize\<close> is idempotent on every JSON-like value; it returns numbers,
  booleans and \<open>null\<close> unchanged; and on an array it is the element-wise map, so the
  length and the order of the array are kept.
\<close>

theorem sanitize_idempotent:
  "sanitize (sanitize v) = sanitize v
   \<and> sanitize (JNum n) = JNum n
   \<and> sanitize (JBool b) = JBool b
   \<and> sanitize JNull = JNull
   \<and> sanitize (JArray xs) = JArray (map sanitize xs)
   \<and> length (sanitize_items xs) = length xs"
  by (simp add: sanitize_idem_all sanitize_items_map)

section \<open>Unknown tools\<close>

text \<open>
  Claim C8. For every tool name outside the registered set, \<open>handleToolCall\<close> returns
  (it does not throw) the normal envelope with the text \<open>Error: Unknown tool: <name>\<close>;
  the request is counted and the latency observed.
\<close>

theorem unknown_tool_response:
  assumes "name request \<notin> set registered_tools"
  shows "handleToolCall w e c request s =
           (Inr (text_response (''Error: Unknown tool: '' @ name request)),
            end_timer (clock s) (inc_requests s))"
  using assms
  by (simp add: handleToolCall_def handleToolCall_try_def registered_tools_def inc_requests_def)

theorem unknown_tool_response_witness:
  "''grok_delete'' \<notin> set registered_tools \<and>
   handleToolCall offline_world \<lparr>SHARED_SECRET = None\<rparr> (GrokClient_native offline_world grokConfig)
     \<lparr>name = ''grok_delete'', arguments = JObject [], params_auth = None, auth = None\<rparr> initial_state
   = (Inr \<lparr>content = [\<lparr>item_type = ''text'', item_text = ''Error: Unknown tool: grok_delete''\<rparr>],
          metrics = None\<rparr>,
      initial_state\<lparr>requestCounter := [[]], latencyHistogram := [([], 0)]\<rparr>)"
  using unknown_tool_response
    [of "\<lparr>name = ''grok_delete'', arguments = JObject [], params_auth = None, auth = None\<rparr>"
      offline_world "\<lparr>SHARED_SECRET = None\<rparr>" "GrokClient_native offline_world grokConfig"
      initial_state]
  by (simp add: registered_tools_def text_response_def end_timer_def inc_requests_def
      initial_state_def)

section \<open>Error mapping\<close>

lemma handleError_surfaced:
  "handleError error = text_response (''Error: '' @ surfaced_message error)"
  by (cases error rule: surfaced_message.cases) (simp_all add: handleError_def)

text \<open>
  Claim C2, as stated, fails: a thrown value that is none of the three recognised kinds
  and has a message is answered with that message, not with the generic text. A
  \<open>grok_search\<close> call without arguments makes the coercion of \<open>max_results\<close> throw a
  \<open>TypeError\<close>, and the response shows the \<open>TypeError\<close>'s message.
\<close>

theorem error_mapping_counterexample:
  "handleToolCall_try offline_world (GrokClient_native offline_world grokConfig) 0
       no_arguments_search (inc_requests initial_state)
     = (Inl (cannot_read ''undefined'' ''max_results''), inc_requests initial_state)
   \<and> \<not> recognised (cannot_read ''undefined'' ''max_results'')
   \<and> fst (handleToolCall offline_world \<lparr>SHARED_SECRET = None\<rparr>
             (GrokClient_native offline_world grokConfig) no_arguments_search initial_state)
       = Inr (text_response (''Error: Cannot read properties of undefined (reading ''
               @ [CHR 0x27] @ ''max_results'' @ [CHR 0x27] @ '')''))
   \<and> fst (handleToolCall offline_world \<lparr>SHARED_SECRET = None\<rparr>
             (GrokClient_native offline_world grokConfig) no_arguments_search initial_state)
       \<noteq> Inr (text_response ''Error: Internal server error'')"
  by (simp add: handleToolCall_def handleToolCall_try_def tool_grok_search_def cannot_read_def
      handleError_def text_response_def no_arguments_search_def initial_state_def)

text \<open>
  Claim C2, amended. \<open>handleToolCall\<close> always returns a response and never throws.
  When its body throws, the response is the envelope with the one text
  \<open>Error: <message>\<close>, the error is counted and the latency observed; the message is
  the error's own for a \<open>ValidationError\<close>, an \<open>AuthError\<close> or an
  \<open>ExternalServiceError\<close>, and also for any other thrown value that has a non-empty
  message; only a thrown value without a message gives \<open>Internal server error\<close>.
\<close>

theorem error_mapping:
  "(\<exists>r s'. handleToolCall w e c request s = (Inr r, s'))
   \<and> (handleToolCall_try w c (clock s) request (inc_requests s) = (Inl error, s2)
      \<longrightarrow> handleToolCall w e c request s
          = (Inr (text_response (''Error: '' @ surfaced_message error)),
             end_timer (clock s) (inc_errors s2)))"
  by (simp add: handleToolCall_def Let_def handleError_surfaced split: prod.splits sum.splits)

theorem error_mapping_witness:
  "handleToolCall_try offline_world (GrokClient_native offline_world grokConfig) (clock initial_state)
       \<lparr>name = ''grok_ask'', arguments = JObject [], params_auth = None, auth = None\<rparr>
       (inc_requests initial_state)
     = (Inl (ValidationError ''Invalid input for grok_ask''), inc_requests initial_state)
   \<and> handleToolCall offline_world \<lparr>SHARED_SECRET = None\<rparr> (GrokClient_native offline_world grokConfig)
       \<lparr>name = ''grok_ask'', arguments = JObject [], params_auth = None, auth = None\<rparr> initial_state
     = (Inr (text_response ''Error: Invalid input for grok_ask''),
        end_timer (clock initial_state) (inc_errors (inc_requests initial_state)))"
proof -
  have thrown: "handleToolCall_try offline_world (GrokClient_native offline_world grokConfig)
       (clock initial_state)
       \<lparr>name = ''grok_ask'', arguments = JObject [], params_auth = None, auth = None\<rparr>
       (inc_requests initial_state)
     = (Inl (ValidationError ''Invalid input for grok_ask''), inc_requests initial_state)"
    by (simp add: handleToolCall_try_def tool_grok_ask_def get_prop_def)
  from error_mapping [of offline_world "\<lparr>SHARED_SECRET = None\<rparr>"
      "GrokClient_native offline_world grokConfig"
      "\<lparr>name = ''grok_ask'', arguments = JObject [], params_auth = None, auth = None\<rparr>"
      initial_state "ValidationError ''Invalid input for grok_ask''" "inc_requests initial_state"]
    thrown
  show ?thesis by simp
qed

section \<open>Authentication\<close>





section \<open>Sanitization in the pipeline\<close>

lemma try_sanitized:
  "handleToolCall_try w c start (request\<lparr>arguments := sanitize (arguments request)\<rparr>) s
     = handleToolCall_try w c start request s"
  by (simp add: handleToolCall_try_def sanitize_idem_all cong: if_cong)

lemma startsWith_take: "startsWith s p = (take (length p) s = p)"
  by (induction s p rule: startsWith.induct) auto

lemma includes_str_iff: "includes_str s p = (\<exists>a b. s = a @ p @ b)"
proof (induction s p rule: includes_str.induct)
  case (1 p)
  then show ?case by (cases p) auto
next
  case (2 c cs p)
  show ?case
  proof
    assume "includes_str (c # cs) p"
    then consider "startsWith (c # cs) p" | "includes_str cs p" by auto
    then show "\<exists>a b. c # cs = a @ p @ b"
    proof cases
      case 1
      then have "take (length p) (c # cs) = p" by (simp add: startsWith_take)
      then have "c # cs = [] @ p @ drop (length p) (c # cs)"
        by (metis append_Nil append_take_drop_id)
      then show ?thesis by blast
    next
      case 2
      with "2.IH" obtain a b where "cs = a @ p @ b" by blast
      then have "c # cs = (c # a) @ p @ b" by simp
      then show ?thesis by blast
    qed
  next
    assume "\<exists>a b. c # cs = a @ p @ b"
    then obtain a b where ab: "c # cs = a @ p @ b" by blast
    show "includes_str (c # cs) p"
    proof (cases a)
      case Nil
      with ab have "take (length p) (c # cs) = p" by simp
      then show ?thesis by (simp add: startsWith_take del: startsWith.simps)
    next
      case (Cons x a')
      with ab have "cs = a' @ p @ b" by simp
      with "2.IH" show ?thesis by auto
    qed
  qed
qed

lemma dropped_key_iff:
  "dropped_key k = (take 1 k = ''$'' \<or> (\<exists>a b. k = a @ ''__proto__'' @ b))"
  by (simp add: dropped_key_def startsWith_take includes_str_iff)

lemma sanitize_entries_filter:
  "sanitize_entries kvs
     = map (\<lambda>kv. (fst kv, sanitize (snd kv))) (filter (\<lambda>kv. \<not> dropped_key (fst kv)) kvs)"
  by (induction kvs) auto

text \<open>
  Claim C5. For every argument tree, the sanitized tree has no string value with one of
  the characters \<open>< > " ' `\<close> and no key that begins with \<open>$\<close> or contains
  \<open>__proto__\<close>, and everything else is preserved: a string keeps its other characters
  in their order; an object keeps, in their order, the entries whose key neither begins
  with \<open>$\<close> nor contains \<open>__proto__\<close>, each with its value sanitized; an array is
  mapped element by element; numbers, booleans, \<open>null\<close> and \<open>undefined\<close> are
  returned as they are. \<open>handleToolCall\<close> sanitizes before it validates: its result
  is the one it gives on the sanitized tree, and a \<open>grok_ask\<close> call whose sanitized
  arguments fail the schema is answered with the validation error.
\<close>

theorem sanitized_before_validation:
  "strings_clean (sanitize v)
   \<and> keys_clean (sanitize v)
   \<and> sanitize (JString str)
       = JString (filter (\<lambda>c. c \<notin> {CHR ''<'', CHR ''>'', CHR 0x22, CHR 0x27, CHR 0x60}) str)
   \<and> sanitize (JObject kvs)
       = JObject (map (\<lambda>kv. (fst kv, sanitize (snd kv)))
                    (filter (\<lambda>kv. \<not> dropped_key (fst kv)) kvs))
   \<and> dropped_key k = (take 1 k = ''$'' \<or> (\<exists>a b. k = a @ ''__proto__'' @ b))
   \<and> sanitize (JArray xs) = JArray (map sanitize xs)
   \<and> sanitize (JNum n) = JNum n \<and> sanitize (JBool b) = JBool b \<and> sanitize JNull = JNull
   \<and> sanitize JUndefined = JUndefined
   \<and> handleToolCall w e c (request\<lparr>arguments := sanitize (arguments request)\<rparr>) s
       = handleToolCall w e c request s
   \<and> (name request = ''grok_ask'' \<and> parse_grok_ask (sanitize (arguments request)) = None
      \<longrightarrow> fst (handleToolCall w e c request s)
            = Inr (text_response ''Error: Invalid input for grok_ask''))"
proof -
  have str: "sanitize (JString str)
       = JString (filter (\<lambda>c. c \<notin> {CHR ''<'', CHR ''>'', CHR 0x22, CHR 0x27, CHR 0x60}) str)"
    by (simp add: strip_def strip_chars_def)
  have obj: "sanitize (JObject kvs)
       = JObject (map (\<lambda>kv. (fst kv, sanitize (snd kv)))
                    (filter (\<lambda>kv. \<not> dropped_key (fst kv)) kvs))"
    by (simp add: sanitize_entries_filter)
  have key: "dropped_key k = (take 1 k = ''$'' \<or> (\<exists>a b. k = a @ ''__proto__'' @ b))"
    by (rule dropped_key_iff)
  have same: "handleToolCall w e c (request\<lparr>arguments := sanitize (arguments request)\<rparr>) s
       = handleToolCall w e c request s"
    by (simp add: handleToolCall_def try_sanitized)
  have invalid: "name request = ''grok_ask'' \<and> parse_grok_ask (sanitize (arguments request)) = None
      \<longrightarrow> fst (handleToolCall w e c request s)
            = Inr (text_response ''Error: Invalid input for grok_ask'')"
    by (simp add: handleToolCall_def handleToolCall_try_def tool_grok_ask_def handleError_def)
  show ?thesis
    using str obj key same invalid
    by (simp add: sanitize_strings_clean sanitize_keys_clean sanitize_items_map)
qed

text \<open>
  The question \<open><>\<close> passes the schema as it is sent and fails it once sanitized (it is
  empty then); the handler answers with the validation error. And the sanitized
  \<open>mixed_arguments\<close>: the number and the clean parts of the strings are kept, in
  place, at every depth; the two dropped keys are gone.
\<close>

theorem sanitized_before_validation_witness:
  "name markup_question = ''grok_ask''
   \<and> parse_grok_ask (arguments markup_question)
       = Some \<lparr>question = ''<>'', ask_context = None, system_prompt = None, temperature = None,
               max_tokens = None, include_search = None, model = None\<rparr>
   \<and> parse_grok_ask (sanitize (arguments markup_question)) = None
   \<and> fst (handleToolCall online_world \<lparr>SHARED_SECRET = None\<rparr>
            (GrokClient online_world grokConfig) markup_question initial_state)
       = Inr (text_response ''Error: Invalid input for grok_ask'')
   \<and> sanitize mixed_arguments
       = JObject [(''temperature'', JNum (Fin 1)), (''question'', JString ''a''),
                  (''tags'', JArray [JString ''xy'', JBool True,
                                     JObject [(''deep'', JString ''z'')]])]"
proof -
  have tool: "name markup_question = ''grok_ask''"
    by (simp add: markup_question_def)
  have raw: "parse_grok_ask (arguments markup_question)
       = Some \<lparr>question = ''<>'', ask_context = None, system_prompt = None, temperature = None,
               max_tokens = None, include_search = None, model = None\<rparr>"
    by (simp add: markup_question_def get_prop_def)
  have clean: "parse_grok_ask (sanitize (arguments markup_question)) = None"
    by (simp add: markup_question_def get_prop_def dropped_key_def strip_def strip_chars_def)
  note call = sanitized_before_validation [where request = markup_question
      and w = online_world and e = "\<lparr>SHARED_SECRET = None\<rparr>"
      and c = "GrokClient online_world grokConfig" and s = initial_state]
  have answered: "fst (handleToolCall online_world \<lparr>SHARED_SECRET = None\<rparr>
            (GrokClient online_world grokConfig) markup_question initial_state)
       = Inr (text_response ''Error: Invalid input for grok_ask'')"
    using call tool clean by blast
  note object = sanitized_before_validation
    [where kvs = "[(''temperature'', JNum (Fin 1)), (''question'', JString ''<a>''),
              (''$where'', JNull), (''x__proto__'', JBool False),
              (''tags'', JArray [JString (''x'' @ [CHR 0x60] @ ''y''), JBool True,
                                 JObject [(''deep'', JString (dq @ ''z'' @ dq))]])]"]
  have tree: "sanitize mixed_arguments
       = JObject [(''temperature'', JNum (Fin 1)), (''question'', JString ''a''),
                  (''tags'', JArray [JString ''xy'', JBool True,
                                     JObject [(''deep'', JString ''z'')]])]"
    using object
    by (simp add: mixed_arguments_def dropped_key_def strip_def strip_chars_def)
  show ?thesis
    using tool raw clean answered tree by simp
qed

section \<open>The operations that never raise\<close>

text \<open>
  Claim C9. \<open>getModels\<close> (in both revisions) and \<open>testConnection\<close> always return a
  value: whatever the upstream does, \<open>getModels\<close> returns a list of identifiers, the
  fixed fallback list when the call has failed, and \<open>testConnection\<close> returns a
  boolean, \<open>false\<close> when the chat completion has failed and \<open>true\<close> when it has
  returned.
\<close>

theorem advisory_operations_never_raise:
  "(\<exists>ms s'. getModels w s = (Inr ms, s'))
   \<and> (\<exists>ms s'. getModels_native w s = (Inr ms, s'))
   \<and> (models_endpoint w (length (net_log s)) = Inl failure
        \<longrightarrow> fst (getModels w s) = Inr fallback_models
          \<and> fst (getModels_native w s) = Inr fallback_models_native)
   \<and> (\<exists>b s'. testConnection w config s = (Inr b, s'))
   \<and> (fst (chatCompletion w config hello_request s) = Inl error
        \<longrightarrow> fst (testConnection w config s) = Inr False)
   \<and> (fst (chatCompletion w config hello_request s) = Inr answer
        \<longrightarrow> fst (testConnection w config s) = Inr True)"
  by (auto simp: getModels_def getModels_native_def getModels_with_def Let_def testConnection_def
      split: sum.splits prod.splits)

theorem advisory_operations_never_raise_witness:
  "models_endpoint offline_world (length (net_log initial_state))
     = Inl (AxiosError None None ''Network Error'')
   \<and> fst (getModels offline_world initial_state) = Inr fallback_models
   \<and> fst (getModels_native offline_world initial_state) = Inr fallback_models_native
   \<and> fst (chatCompletion offline_world grokConfig hello_request initial_state)
       = Inl (OtherError (Some ''Grok API Error: undefined - Network Error''))
   \<and> fst (testConnection offline_world grokConfig initial_state) = Inr False
   \<and> fst (chatCompletion online_world grokConfig hello_request initial_state) = Inr greeting
   \<and> fst (testConnection online_world grokConfig initial_state) = Inr True"
proof -
  have models: "models_endpoint offline_world (length (net_log initial_state))
     = Inl (AxiosError None None ''Network Error'')"
    by (simp add: offline_world_def)
  have down: "fst (chatCompletion offline_world grokConfig hello_request initial_state)
       = Inl (OtherError (Some ''Grok API Error: undefined - Network Error''))"
    by (simp add: chatCompletion_def lru_get_def issue_def initial_state_def offline_world_def
        show_status_def Let_def)
  have up: "fst (chatCompletion online_world grokConfig hello_request initial_state) = Inr greeting"
    by (simp add: chatCompletion_def lru_get_def issue_def initial_state_def online_world_def
        Let_def)
  from advisory_operations_never_raise [of offline_world initial_state
      "AxiosError None None ''Network Error''" grokConfig
      "OtherError (Some ''Grok API Error: undefined - Network Error'')"]
    advisory_operations_never_raise [of online_world initial_state _ grokConfig _ greeting]
    models down up
  show ?thesis by simp
qed

section \<open>Search fallback\<close>

lemma liveSearch_miss:
  assumes "fst (lru_get (clock s) (search_hit request) (cache s)) = None"
  shows "liveSearch w config request s =
     (case search_endpoint w (length (net_log s)) request of
        Inr data \<Rightarrow>
          (Inr data,
           (search_failed w request s)\<lparr>cache := lru_set (clock (search_failed w request s))
              (search_hit request) (SearchEntry request data) (cache (search_failed w request s))\<rparr>)
      | Inl (AxiosError status api_message message) \<Rightarrow>
          simulateSearch w config request (search_failed w request s)
      | Inl (Failure error) \<Rightarrow> (Inl error, search_failed w request s))"
  using assms
  by (cases "lru_get (clock s) (search_hit request) (cache s)")
     (simp add: liveSearch_def search_failed_def Let_def split: sum.splits upstream_failure.splits)

lemma simulateSearch_cases:
  "fst (simulateSearch w config request s) =
     (case fst (chatCompletion w config (simulate_request w request) s) of
        Inl error \<Rightarrow> Inl error
      | Inr chatResponse \<Rightarrow>
          (case JSON_parse_results w (extract_document chatResponse) of
             Some parsed \<Rightarrow>
               Inr \<lparr>results = (case parsed of Some rs \<Rightarrow> rs | None \<Rightarrow> []),
                    total_results = (case parsed of Some rs \<Rightarrow> of_nat (length rs) | None \<Rightarrow> 0),
                    search_time = 1 / 2\<rparr>
           | None \<Rightarrow>
               (case encodeURIComponent w (query request) of
                  None \<Rightarrow> Inl (OtherError (Some ''URI malformed''))
                | Some encoded \<Rightarrow>
                    Inr \<lparr>results = fallbackResults request encoded, total_results = 1,
                         search_time = 1 / 2\<rparr>)))"
  by (simp add: simulateSearch_def fallbackResults_def split: prod.splits sum.splits option.splits)

lemma parseSearchResults_nonempty:
  "parseSearchResults w ctext citations maxResults = Inr rs \<Longrightarrow> rs \<noteq> []"
  by (auto simp: parseSearchResults_def Let_def split: sum.splits if_splits)

lemma liveSearch_native_miss:
  assumes "fst (lru_get (clock s) (search_hit request) (cache s)) = None"
  shows "fst (liveSearch_native w config request s) =
     (case fst (chatCompletion w config (native_request w (clock s) request)
                  (s\<lparr>cache := snd (lru_get (clock s) (search_hit request) (cache s))\<rparr>)) of
        Inl error \<Rightarrow> Inl (ExternalServiceError ''Live search failed'' 500)
      | Inr chatResponse \<Rightarrow>
          (case parseSearchResults w
                  (case first_content chatResponse of Some c \<Rightarrow> c | None \<Rightarrow> [])
                  (case first_message chatResponse of
                     None \<Rightarrow> []
                   | Some m \<Rightarrow> (case c_citations m of None \<Rightarrow> [] | Some cs \<Rightarrow> cs))
                  (max_results request) of
             Inl error \<Rightarrow> Inl (ExternalServiceError ''Live search failed'' 500)
           | Inr rs \<Rightarrow> Inr \<lparr>results = rs, total_results = of_nat (length rs), search_time = 1 / 2\<rparr>))"
  using assms
  by (cases "lru_get (clock s) (search_hit request) (cache s)")
     (simp add: liveSearch_native_def Let_def split: prod.splits sum.splits)

lemma extract_no_choices: "extract_document no_choices = empty_document"
  by (simp add: extract_document_def first_content_def first_message_def no_choices_def
      trim_def is_space_def fence_def match_braces_def empty_document_def)

text \<open>
  Claim C3, as stated, fails: with no endpoint reachable, the search by simulation
  throws the chat completion's error to its caller, and the native search throws
  \<open>ExternalServiceError('Live search failed')\<close>; neither returns a response. And when
  \<open>POST /search\<close> fails and the chat completion answers with no choice, the search by
  simulation returns a response whose results array is empty.
\<close>

theorem search_fallback_counterexample:
  "fst (liveSearch offline_world grokConfig test_search initial_state)
     = Inl (OtherError (Some ''Grok API Error: undefined - Network Error''))
   \<and> fst (liveSearch_native offline_world grokConfig test_search initial_state)
     = Inl (ExternalServiceError ''Live search failed'' 500)
   \<and> fst (liveSearch silent_world grokConfig test_search initial_state)
     = Inr \<lparr>results = [], total_results = 0, search_time = 1 / 2\<rparr>"
  by (simp add: liveSearch_def liveSearch_native_def simulateSearch_def chatCompletion_def
      extract_no_choices lru_get_def issue_def initial_state_def silent_world_def
      offline_world_def show_status_def Let_def)

text \<open>
  Claim C3, amended. For a search request that is not in the cache: in the revision with
  simulated search, when \<open>POST /search\<close> fails with an axios error and the chat
  completion behind \<open>simulateSearch\<close> returns, a parse failure of the simulated-search
  JSON never escapes and the response holds the single deterministic fallback result
  built from the original query (the query being one \<open>encodeURIComponent\<close> accepts),
  and a document that parses gives the results it holds, which may be none (and none
  when it has no \<open>results\<close>);
  when that chat completion fails, or \<open>POST /search\<close> fails with an error that is no
  axios error, the failure is thrown to the caller. In the revision with native search
  a failure of the chat completion is thrown as
  \<open>ExternalServiceError('Live search failed')\<close>, and every response returned has a
  non-empty results array.
\<close>

theorem search_fallback:
  assumes miss: "fst (lru_get (clock s) (search_hit request) (cache s)) = None"
  shows
   "(search_endpoint w (length (net_log s)) request = Inl (AxiosError status api_message message)
      \<and> fst (chatCompletion w config (simulate_request w request) (search_failed w request s))
          = Inr chatResponse
      \<and> JSON_parse_results w (extract_document chatResponse) = None
      \<and> encodeURIComponent w (query request) = Some encoded
      \<longrightarrow> fst (liveSearch w config request s)
            = Inr \<lparr>results = fallbackResults request encoded, total_results = 1,
                   search_time = 1 / 2\<rparr>
          \<and> length (fallbackResults request encoded) = 1)
    \<and> (search_endpoint w (length (net_log s)) request = Inl (AxiosError status api_message message)
      \<and> fst (chatCompletion w config (simulate_request w request) (search_failed w request s))
          = Inr chatResponse
      \<and> JSON_parse_results w (extract_document chatResponse) = Some (Some parsed)
      \<longrightarrow> fst (liveSearch w config request s)
            = Inr \<lparr>results = parsed, total_results = of_nat (length parsed),
                   search_time = 1 / 2\<rparr>)
    \<and> (search_endpoint w (length (net_log s)) request = Inl (AxiosError status api_message message)
      \<and> fst (chatCompletion w config (simulate_request w request) (search_failed w request s))
          = Inr chatResponse
      \<and> JSON_parse_results w (extract_document chatResponse) = Some None
      \<longrightarrow> fst (liveSearch w config request s)
            = Inr \<lparr>results = [], total_results = 0, search_time = 1 / 2\<rparr>)
    \<and> (search_endpoint w (length (net_log s)) request = Inl (AxiosError status api_message message)
      \<and> fst (chatCompletion w config (simulate_request w request) (search_failed w request s))
          = Inl error
      \<longrightarrow> fst (liveSearch w config request s) = Inl error)
    \<and> (search_endpoint w (length (net_log s)) request = Inl (Failure error)
      \<longrightarrow> fst (liveSearch w config request s) = Inl error)
    \<and> (fst (chatCompletion w config (native_request w (clock s) request)
               (s\<lparr>cache := snd (lru_get (clock s) (search_hit request) (cache s))\<rparr>)) = Inl error
      \<longrightarrow> fst (liveSearch_native w config request s)
            = Inl (ExternalServiceError ''Live search failed'' 500))
    \<and> (fst (liveSearch_native w config request s) = Inr found \<longrightarrow> results found \<noteq> [])"
proof -
  have native: "fst (liveSearch_native w config request s) = Inr found \<Longrightarrow> results found \<noteq> []"
    by (auto simp: liveSearch_native_miss [OF miss] split: sum.splits
        dest: parseSearchResults_nonempty)
  show ?thesis
    using native
    by (simp add: liveSearch_miss [OF miss] liveSearch_native_miss [OF miss] simulateSearch_cases
        fallbackResults_def)
qed

theorem search_fallback_witness:
  "fst (lru_get (clock initial_state) (search_hit test_search) (cache initial_state)) = None
   \<and> search_endpoint chat_only_world (length (net_log initial_state)) test_search
       = Inl (AxiosError None None ''Network Error'')
   \<and> fst (chatCompletion chat_only_world grokConfig (simulate_request chat_only_world test_search)
            (search_failed chat_only_world test_search initial_state)) = Inr greeting
   \<and> JSON_parse_results chat_only_world (extract_document greeting) = None
   \<and> encodeURIComponent chat_only_world (query test_search) = Some ''test''
   \<and> fst (liveSearch chat_only_world grokConfig test_search initial_state)
       = Inr \<lparr>results =
               [\<lparr>title = ''Search results for: test'',
                 url = ''https://www.google.com/search?q=test'',
                 snippet = ''Information about test - simulated search result as the live search API is not available.'',
                 published_date = None, source = None\<rparr>],
              total_results = 1, search_time = 1 / 2\<rparr>
   \<and> fst (chatCompletion silent_world grokConfig (simulate_request silent_world test_search)
            (search_failed silent_world test_search initial_state)) = Inr no_choices
   \<and> JSON_parse_results silent_world (extract_document no_choices) = Some (Some [])
   \<and> fst (liveSearch silent_world grokConfig test_search initial_state)
       = Inr \<lparr>results = [], total_results = 0, search_time = 1 / 2\<rparr>
   \<and> fst (chatCompletion items_world grokConfig (simulate_request items_world test_search)
            (search_failed items_world test_search initial_state)) = Inr items_answer
   \<and> JSON_parse_results items_world (extract_document items_answer) = Some None
   \<and> fst (liveSearch items_world grokConfig test_search initial_state)
       = Inr \<lparr>results = [], total_results = 0, search_time = 1 / 2\<rparr>
   \<and> fst (chatCompletion offline_world grokConfig (simulate_request offline_world test_search)
            (search_failed offline_world test_search initial_state))
       = Inl (OtherError (Some ''Grok API Error: undefined - Network Error''))
   \<and> fst (liveSearch offline_world grokConfig test_search initial_state)
       = Inl (OtherError (Some ''Grok API Error: undefined - Network Error''))
   \<and> search_endpoint stopped_world (length (net_log initial_state)) test_search
       = Inl (Failure (OtherError (Some ''This limiter has been stopped.'')))
   \<and> fst (liveSearch stopped_world grokConfig test_search initial_state)
       = Inl (OtherError (Some ''This limiter has been stopped.''))
   \<and> fst (liveSearch_native offline_world grokConfig test_search initial_state)
       = Inl (ExternalServiceError ''Live search failed'' 500)
   \<and> fst (liveSearch_native chat_only_world grokConfig test_search initial_state)
       = Inr \<lparr>results = [generic_result ''Hello!''], total_results = 1, search_time = 1 / 2\<rparr>
   \<and> [generic_result ''Hello!''] \<noteq> []"
proof -
  have miss: "fst (lru_get (clock initial_state) (search_hit test_search) (cache initial_state)) = None"
    by (simp add: lru_get_def initial_state_def)
  have axios: "search_endpoint chat_only_world (length (net_log initial_state)) test_search
       = Inl (AxiosError None None ''Network Error'')"
    by (simp add: chat_only_world_def offline_world_def)
  have chat: "fst (chatCompletion chat_only_world grokConfig
            (simulate_request chat_only_world test_search)
            (search_failed chat_only_world test_search initial_state)) = Inr greeting"
    by (simp add: chatCompletion_def search_failed_def issue_def lru_get_def initial_state_def
        chat_only_world_def offline_world_def Let_def)
  have parse: "JSON_parse_results chat_only_world (extract_document greeting) = None"
    by (simp add: chat_only_world_def offline_world_def)
  have enc: "encodeURIComponent chat_only_world (query test_search) = Some ''test''"
    by (simp add: chat_only_world_def offline_world_def test_search_def)
  have down: "fst (chatCompletion offline_world grokConfig
            (simulate_request offline_world test_search)
            (search_failed offline_world test_search initial_state))
       = Inl (OtherError (Some ''Grok API Error: undefined - Network Error''))"
    by (simp add: chatCompletion_def search_failed_def issue_def lru_get_def initial_state_def
        offline_world_def show_status_def Let_def)
  have axios': "search_endpoint offline_world (length (net_log initial_state)) test_search
       = Inl (AxiosError None None ''Network Error'')"
    by (simp add: offline_world_def)
  have stopped: "search_endpoint stopped_world (length (net_log initial_state)) test_search
       = Inl (Failure (OtherError (Some ''This limiter has been stopped.'')))"
    by (simp add: stopped_world_def)
  have down': "fst (chatCompletion offline_world grokConfig
            (native_request offline_world (clock initial_state) test_search)
            (initial_state\<lparr>cache := snd (lru_get (clock initial_state) (search_hit test_search)
               (cache initial_state))\<rparr>))
       = Inl (OtherError (Some ''Grok API Error: undefined - Network Error''))"
    by (simp add: chatCompletion_def issue_def lru_get_def initial_state_def
        offline_world_def show_status_def Let_def)
  have native_ok: "fst (liveSearch_native chat_only_world grokConfig test_search initial_state)
       = Inr \<lparr>results = [generic_result ''Hello!''], total_results = 1, search_time = 1 / 2\<rparr>"
    by (simp add: liveSearch_native_def chatCompletion_def issue_def lru_get_def
        initial_state_def chat_only_world_def offline_world_def Let_def greeting_def
        first_content_def first_message_def parseSearchResults_def test_search_def slice0_def
        is_space_def)
  have axios'': "search_endpoint silent_world (length (net_log initial_state)) test_search
       = Inl (AxiosError None None ''Network Error'')"
    by (simp add: silent_world_def offline_world_def)
  have silent: "fst (chatCompletion silent_world grokConfig
            (simulate_request silent_world test_search)
            (search_failed silent_world test_search initial_state)) = Inr no_choices"
    by (simp add: chatCompletion_def search_failed_def issue_def lru_get_def initial_state_def
        silent_world_def offline_world_def Let_def)
  have parsed: "JSON_parse_results silent_world (extract_document no_choices) = Some (Some [])"
    by (simp add: extract_no_choices silent_world_def)
  note p = search_fallback [OF miss, where w = silent_world and config = grokConfig
      and status = None and api_message = None and message = "''Network Error''"
      and chatResponse = no_choices and parsed = "[]"]
  have P: "fst (liveSearch silent_world grokConfig test_search initial_state)
       = Inr \<lparr>results = [], total_results = 0, search_time = 1 / 2\<rparr>"
    using p axios'' silent parsed by simp
  have axios_items: "search_endpoint items_world (length (net_log initial_state)) test_search
       = Inl (AxiosError None None ''Network Error'')"
    by (simp add: items_world_def offline_world_def)
  have items: "fst (chatCompletion items_world grokConfig
            (simulate_request items_world test_search)
            (search_failed items_world test_search initial_state)) = Inr items_answer"
    by (simp add: chatCompletion_def search_failed_def issue_def lru_get_def initial_state_def
        items_world_def offline_world_def Let_def)
  have extract_items: "extract_document items_answer = items_document"
    by (simp add: extract_document_def first_content_def first_message_def items_answer_def
        items_document_def trim_def is_space_def fence_def match_braces_def)
  have no_results: "JSON_parse_results items_world (extract_document items_answer) = Some None"
    by (simp add: extract_items items_world_def)
  note i = search_fallback [OF miss, where w = items_world and config = grokConfig
      and status = None and api_message = None and message = "''Network Error''"
      and chatResponse = items_answer]
  have I: "fst (liveSearch items_world grokConfig test_search initial_state)
       = Inr \<lparr>results = [], total_results = 0, search_time = 1 / 2\<rparr>"
    using i axios_items items no_results by simp
  note a = search_fallback [OF miss, where w = chat_only_world and config = grokConfig
      and status = None and api_message = None and message = "''Network Error''"
      and chatResponse = greeting and encoded = "''test''"]
  note d = search_fallback [OF miss, where w = offline_world and config = grokConfig
      and status = None and api_message = None and message = "''Network Error''"
      and error = "OtherError (Some ''Grok API Error: undefined - Network Error'')"]
  note e = search_fallback [OF miss, where w = stopped_world and config = grokConfig
      and error = "OtherError (Some ''This limiter has been stopped.'')"]
  note c = search_fallback [OF miss, where w = chat_only_world and config = grokConfig
      and found = "\<lparr>results = [generic_result ''Hello!''], total_results = 1,
        search_time = 1 / 2\<rparr>"]
  have A: "fst (liveSearch chat_only_world grokConfig test_search initial_state)
       = Inr \<lparr>results = fallbackResults test_search ''test'', total_results = 1,
              search_time = 1 / 2\<rparr>"
    using a axios chat parse enc by blast
  have D: "fst (liveSearch offline_world grokConfig test_search initial_state)
       = Inl (OtherError (Some ''Grok API Error: undefined - Network Error''))"
    using d axios' down by blast
  have E: "fst (liveSearch stopped_world grokConfig test_search initial_state)
       = Inl (OtherError (Some ''This limiter has been stopped.''))"
    using e stopped by blast
  have B: "fst (liveSearch_native offline_world grokConfig test_search initial_state)
       = Inl (ExternalServiceError ''Live search failed'' 500)"
    using d down' by blast
  have C: "[generic_result ''Hello!''] \<noteq> []"
    using c native_ok by simp
  show ?thesis
    using miss axios chat parse enc A silent parsed P items no_results I down D stopped E B
      native_ok C
    by (simp add: fallbackResults_def test_search_def)
qed

section \<open>The chat cache\<close>










section \<open>Metrics\<close>

lemma grok_search_success_state:
  assumes "name request = ''grok_search''"
    and "coerce_max_results w (sanitize (arguments request)) = Inr coerced"
    and "parse_grok_search coerced = Some d"
    and "client_liveSearch c d (inc_requests s) = (Inr found, s1)"
  shows "snd (handleToolCall w e c request s) = s1"
  using assms
  by (simp add: handleToolCall_def handleToolCall_try_def tool_grok_search_def safeSearch_def
      Let_def)

text \<open>
  Claim C4 at a \<open>grok_search\<close> call that succeeds (the upstream answers with one
  result): the response is the formatted list, the request is counted, with no label,
  and no latency is observed: the \<open>grok_search\<close> case returns without calling
  \<open>end\<close>. A \<open>grok_models\<close> call in the same world does observe its latency.
\<close>

theorem search_latency_not_recorded:
  "fst (handleToolCall online_world \<lparr>SHARED_SECRET = None\<rparr> (GrokClient online_world grokConfig)
          test_search_request initial_state)
     = Inr (text_response (''Search Results for '' @ dq @ ''test'' @ dq
          @ '' (1 results found in 0.5s):'' @ nl @ nl
          @ ''1. Test'' @ nl @ ''https://example.com/test'' @ nl @ ''A test page''))
   \<and> latencyHistogram (snd (handleToolCall online_world \<lparr>SHARED_SECRET = None\<rparr>
          (GrokClient online_world grokConfig) test_search_request initial_state)) = []
   \<and> requestCounter (snd (handleToolCall online_world \<lparr>SHARED_SECRET = None\<rparr>
          (GrokClient online_world grokConfig) test_search_request initial_state)) = [[]]
   \<and> errorCounter (snd (handleToolCall online_world \<lparr>SHARED_SECRET = None\<rparr>
          (GrokClient online_world grokConfig) test_search_request initial_state)) = []
   \<and> latencyHistogram (snd (handleToolCall online_world \<lparr>SHARED_SECRET = None\<rparr>
          (GrokClient online_world grokConfig) all_models_request initial_state)) = [([], 1 / 10)]"
  by (simp add: handleToolCall_def handleToolCall_try_def tool_grok_search_def
      tool_grok_models_def safeSearch_def GrokClient_def liveSearch_def getModels_def
      getModels_with_def lru_get_def lru_set_def cache_max_def issue_def
      test_search_request_def all_models_request_def dropped_key_def strip_def strip_chars_def
      get_prop_def online_world_def offline_world_def one_result_def toString_table_def
      initial_state_def inc_requests_def end_timer_def text_response_def formattedResults_def
      format_result_def enumerate_eq_zip Let_def)

section \<open>The \<open>max_results\<close> argument\<close>

lemma floor_37_10: "\<lfloor>37 / 10 :: rat\<rfloor> = 3"
  by (simp add: floor_eq_iff)

text \<open>
  Claim C7 at two requests. \<open>{query: "test", max_results: 3.7}\<close> is coerced to
  \<open>max_results = 3\<close> and accepted. \<open>{query: "test", max_results: -2}\<close> is accepted
  too, with \<open>max_results = -2\<close>, and the search is sent upstream with it: the schema
  asks for an integer and for nothing more.
\<close>

theorem max_results_not_bounded:
  "(case coerce_max_results offline_world (sanitize (arguments float_search_request)) of
      Inr coerced \<Rightarrow> parse_grok_search coerced | Inl err \<Rightarrow> None)
     = Some \<lparr>query = ''test'', max_results = Some 3, include_images = None,
             include_news = None, time_filter = None\<rparr>
   \<and> (case coerce_max_results offline_world (sanitize (arguments negative_search_request)) of
      Inr coerced \<Rightarrow> parse_grok_search coerced | Inl err \<Rightarrow> None)
     = Some \<lparr>query = ''test'', max_results = Some (- 2), include_images = None,
             include_news = None, time_filter = None\<rparr>
   \<and> net_log (snd (handleToolCall online_world \<lparr>SHARED_SECRET = None\<rparr>
          (GrokClient online_world grokConfig) negative_search_request initial_state))
     = [PostSearch \<lparr>query = ''test'', max_results = Some (- 2), include_images = None,
             include_news = None, time_filter = None\<rparr>]"
  by (simp add: float_search_request_def negative_search_request_def dropped_key_def strip_def
      strip_chars_def get_prop_def floor_37_10
      handleToolCall_def handleToolCall_try_def tool_grok_search_def safeSearch_def
      GrokClient_def liveSearch_def lru_get_def issue_def online_world_def offline_world_def
      initial_state_def inc_requests_def Let_def)

end
